theory Spec2Isabelle
  imports Complex_Main "HOL-Library.AList"
begin

section \<open>Values, identifiers and documents\<close>

text \<open>
  The service in \<^verbatim>\<open>main.py\<close> keeps todo items as MongoDB documents, that is as Python
  dictionaries from field names to values. The values that occur are \<^verbatim>\<open>None\<close>,
  booleans, strings and the \<^verbatim>\<open>ObjectId\<close> stored under \<^verbatim>\<open>_id\<close>. A dictionary is an
  association list read with \<^const>\<open>map_of\<close>.

  An \<^verbatim>\<open>ObjectId\<close> is the sequence of the hexadecimal digit values of its bytes, two
  for each byte. \<^verbatim>\<open>ObjectId(s)\<close> of the bson library takes a string of length 24
  and converts it with \<^verbatim>\<open>bytes.fromhex\<close>; it raises \<^verbatim>\<open>InvalidId\<close> when the length
  is not 24 or the conversion fails. \<^verbatim>\<open>bytes.fromhex\<close> reads pairs of hexadecimal
  digits (either case) and skips ASCII whitespace before each pair, so that a string of
  length 24 with whitespace between its pairs is accepted and gives fewer than 12 bytes.
  A string with a character outside ASCII is rejected, whether its length is counted in
  characters or in bytes: such a character is neither whitespace nor a digit.
  \<^verbatim>\<open>str\<close> of an \<^verbatim>\<open>ObjectId\<close> is the lower-case hexadecimal text of its bytes.
\<close>

type_synonym oid = "nat list"

datatype val = VNone | VBool bool | VStr string | VOid oid

type_synonym doc = "(string \<times> val) list"

datatype exn =
    PyMongoError
  | InvalidId
  | KeyError string
  | TypeError
  | HTTPException nat string

definition hex_val :: "char \<Rightarrow> nat option" where
  "hex_val c =
     (let n = (of_char c :: nat) in
      if 48 \<le> n \<and> n \<le> 57 then Some (n - 48)
      else if 97 \<le> n \<and> n \<le> 102 then Some (n - 87)
      else if 65 \<le> n \<and> n \<le> 70 then Some (n - 55)
      else None)"

definition hex_char :: "nat \<Rightarrow> char" where
  "hex_char n = (if n < 10 then char_of (48 + n) else char_of (87 + n))"

text \<open>ASCII whitespace: the characters 9 to 13 and the space.\<close>

definition is_space :: "char \<Rightarrow> bool" where
  "is_space c = (let n = (of_char c :: nat) in n = 32 \<or> (9 \<le> n \<and> n \<le> 13))"

text \<open>
  \<^verbatim>\<open>bytes.fromhex\<close>: whitespace is skipped where a byte may start; then two hexadecimal
  digits must follow each other. \<open>None\<close> is the \<^verbatim>\<open>ValueError\<close>.
\<close>

fun fromhex :: "string \<Rightarrow> nat list option" where
  "fromhex [] = Some []"
| "fromhex [c] = (if is_space c then Some [] else None)"
| "fromhex (c # d # cs) =
     (if is_space c then fromhex (d # cs)
      else
        (case hex_val c of
           None \<Rightarrow> None
         | Some hi \<Rightarrow>
             (case hex_val d of
                None \<Rightarrow> None
              | Some lo \<Rightarrow>
                  (case fromhex cs of
                     None \<Rightarrow> None
                   | Some bytes \<Rightarrow> Some (hi # lo # bytes)))))"

definition ObjectId :: "string \<Rightarrow> exn + oid" where
  "ObjectId s =
     (if length s = 24 then
        (case fromhex s of
           Some ds \<Rightarrow> Inr ds
         | None \<Rightarrow> Inl InvalidId)
      else Inl InvalidId)"

fun py_str :: "val \<Rightarrow> string" where
  "py_str VNone = ''None''"
| "py_str (VBool b) = (if b then ''True'' else ''False'')"
| "py_str (VStr s) = s"
| "py_str (VOid ds) = map hex_char ds"

text \<open>Python truth value of a document value, as \<^verbatim>\<open>if v\<close> and \<^verbatim>\<open>not v\<close> test it.\<close>

fun truthy :: "val \<Rightarrow> bool" where
  "truthy VNone = False"
| "truthy (VBool b) = b"
| "truthy (VStr s) = (s \<noteq> [])"
| "truthy (VOid ds) = True"

text \<open>\<^verbatim>\<open>d.get(k, default)\<close>.\<close>

definition dict_get :: "doc \<Rightarrow> string \<Rightarrow> val \<Rightarrow> val" where
  "dict_get d k dflt = (case map_of d k of None \<Rightarrow> dflt | Some v \<Rightarrow> v)"

section \<open>Request models\<close>

text \<open>
  The pydantic models \<^verbatim>\<open>TodoCreate\<close> and \<^verbatim>\<open>TodoUpdate\<close>, after validation. Both
  have fields \<^verbatim>\<open>title\<close>, \<^verbatim>\<open>description\<close> and \<^verbatim>\<open>completed\<close>; the prefixes
  \<open>c_\<close> and \<open>u_\<close> keep the two records apart. A field whose default is \<^verbatim>\<open>None\<close>
  is an option.
\<close>

record TodoCreate =
  c_title :: string
  c_description :: "string option"
  c_completed :: bool

record TodoUpdate =
  u_title :: "string option"
  u_description :: "string option"
  u_completed :: "bool option"

definition opt_str :: "string option \<Rightarrow> val" where
  "opt_str x = (case x of None \<Rightarrow> VNone | Some s \<Rightarrow> VStr s)"

definition opt_bool :: "bool option \<Rightarrow> val" where
  "opt_bool x = (case x of None \<Rightarrow> VNone | Some b \<Rightarrow> VBool b)"

text \<open>\<^verbatim>\<open>todo.dict()\<close> for the two models.\<close>

definition dict_of_create :: "TodoCreate \<Rightarrow> doc" where
  "dict_of_create t =
     [(''title'', VStr (c_title t)),
      (''description'', opt_str (c_description t)),
      (''completed'', VBool (c_completed t))]"

definition dict_of_update :: "TodoUpdate \<Rightarrow> doc" where
  "dict_of_update t =
     [(''title'', opt_str (u_title t)),
      (''description'', opt_str (u_description t)),
      (''completed'', opt_bool (u_completed t))]"

section \<open>Process state: the metrics registry and the collection\<close>

text \<open>
  The module-level metric objects form the registry. The histogram keeps the list of its
  observations, each with its labels (method, endpoint, status code) and the observed
  duration in seconds. The labelled counter \<^verbatim>\<open>db_errors\<close> maps the operation label
  to its count.
\<close>

record registry =
  http_request_duration :: "(string \<times> string \<times> nat \<times> real) list"
  todos_created :: nat
  todos_deleted :: nat
  todos_completed :: nat
  active_todos :: int
  db_errors :: "string \<Rightarrow> nat"
  mongo_connections :: int

text \<open>
  The calls that the handlers issue against the storage layer. The state keeps the list
  of the calls issued so far, and the outcomes that the storage connection will give to
  the coming calls: each call takes the head of \<open>faults\<close>, and \<open>True\<close> there
  makes the call raise \<^verbatim>\<open>PyMongoError\<close> without any effect on the collection. An
  empty list means that every coming call succeeds.
\<close>

datatype storage_call =
    Ping
  | Find
  | InsertOne doc
  | FindOne oid
  | UpdateOne oid doc
  | DeleteOne oid
  | CountDocuments

record state =
  todos_collection :: "doc list"
  metrics :: registry
  faults :: "bool list"
  calls :: "storage_call list"

definition issue :: "storage_call \<Rightarrow> state \<Rightarrow> bool \<times> state" where
  "issue c s =
     (case faults s of
        [] \<Rightarrow> (False, s\<lparr>calls := calls s @ [c]\<rparr>)
      | f # fs \<Rightarrow> (f, s\<lparr>faults := fs, calls := calls s @ [c]\<rparr>))"

subsection \<open>Metric updates\<close>

definition inc_todos_created :: "state \<Rightarrow> state" where
  "inc_todos_created s =
     s\<lparr>metrics := (metrics s)\<lparr>todos_created := todos_created (metrics s) + 1\<rparr>\<rparr>"

definition inc_todos_deleted :: "state \<Rightarrow> state" where
  "inc_todos_deleted s =
     s\<lparr>metrics := (metrics s)\<lparr>todos_deleted := todos_deleted (metrics s) + 1\<rparr>\<rparr>"

definition inc_todos_completed :: "state \<Rightarrow> state" where
  "inc_todos_completed s =
     s\<lparr>metrics := (metrics s)\<lparr>todos_completed := todos_completed (metrics s) + 1\<rparr>\<rparr>"

definition set_active_todos :: "int \<Rightarrow> state \<Rightarrow> state" where
  "set_active_todos n s = s\<lparr>metrics := (metrics s)\<lparr>active_todos := n\<rparr>\<rparr>"

definition set_mongo_connections :: "int \<Rightarrow> state \<Rightarrow> state" where
  "set_mongo_connections n s = s\<lparr>metrics := (metrics s)\<lparr>mongo_connections := n\<rparr>\<rparr>"

definition inc_db_errors :: "string \<Rightarrow> state \<Rightarrow> state" where
  "inc_db_errors operation s =
     s\<lparr>metrics := (metrics s)\<lparr>db_errors :=
         (db_errors (metrics s))(operation := db_errors (metrics s) operation + 1)\<rparr>\<rparr>"

definition observe :: "string \<Rightarrow> string \<Rightarrow> nat \<Rightarrow> real \<Rightarrow> state \<Rightarrow> state" where
  "observe method endpoint status_code duration s =
     s\<lparr>metrics := (metrics s)\<lparr>http_request_duration :=
         http_request_duration (metrics s) @ [(method, endpoint, status_code, duration)]\<rparr>\<rparr>"

subsection \<open>The collection's operations\<close>

text \<open>
  The pymongo calls on \<^verbatim>\<open>todos_collection\<close>. A filter \<^verbatim>\<open>{"_id": oid}\<close> matches the
  documents whose \<^verbatim>\<open>_id\<close> is that identifier, and \<^verbatim>\<open>find_one\<close>, \<^verbatim>\<open>update_one\<close>
  and \<^verbatim>\<open>delete_one\<close> act on the first match. \<^verbatim>\<open>insert_one\<close> stores the document
  under the identifier that the driver generated for it (an argument here), and the
  collection's unique index on \<^verbatim>\<open>_id\<close> makes it raise when the identifier is taken.
  The filter \<^verbatim>\<open>{"completed": False}\<close> matches the documents whose \<^verbatim>\<open>completed\<close>
  field is \<^verbatim>\<open>False\<close>.
\<close>

definition has_id :: "oid \<Rightarrow> doc \<Rightarrow> bool" where
  "has_id i d = (map_of d ''_id'' = Some (VOid i))"

definition is_active :: "doc \<Rightarrow> bool" where
  "is_active d = (map_of d ''completed'' = Some (VBool False))"

definition count_active :: "doc list \<Rightarrow> nat" where
  "count_active ds = length (filter is_active ds)"

fun update_first :: "('a \<Rightarrow> bool) \<Rightarrow> ('a \<Rightarrow> 'a) \<Rightarrow> 'a list \<Rightarrow> 'a list" where
  "update_first P f [] = []"
| "update_first P f (x # xs) = (if P x then f x # xs else x # update_first P f xs)"

fun delete_first :: "('a \<Rightarrow> bool) \<Rightarrow> 'a list \<Rightarrow> 'a list" where
  "delete_first P [] = []"
| "delete_first P (x # xs) = (if P x then xs else x # delete_first P xs)"

text \<open>The update document \<^verbatim>\<open>{"$set": changes}\<close> applied to one document.\<close>

definition set_fields :: "doc \<Rightarrow> doc \<Rightarrow> doc" where
  "set_fields changes d = fold (\<lambda>(k, v). AList.update k v) changes d"

definition find_all :: "state \<Rightarrow> (exn + doc list) \<times> state" where
  "find_all s =
     (let (failed, s') = issue Find s in
      if failed then (Inl PyMongoError, s') else (Inr (todos_collection s'), s'))"

definition find_one :: "oid \<Rightarrow> state \<Rightarrow> (exn + doc option) \<times> state" where
  "find_one i s =
     (let (failed, s') = issue (FindOne i) s in
      if failed then (Inl PyMongoError, s')
      else (Inr (find (has_id i) (todos_collection s')), s'))"

definition insert_one :: "oid \<Rightarrow> doc \<Rightarrow> state \<Rightarrow> (exn + oid) \<times> state" where
  "insert_one new_id d s =
     (let (failed, s') = issue (InsertOne d) s in
      if failed \<or> (\<exists>x \<in> set (todos_collection s'). has_id new_id x) then (Inl PyMongoError, s')
      else (Inr new_id,
            s'\<lparr>todos_collection := todos_collection s' @ [AList.update ''_id'' (VOid new_id) d]\<rparr>))"

definition update_one :: "oid \<Rightarrow> doc \<Rightarrow> state \<Rightarrow> (exn + unit) \<times> state" where
  "update_one i changes s =
     (let (failed, s') = issue (UpdateOne i changes) s in
      if failed then (Inl PyMongoError, s')
      else (Inr (),
            s'\<lparr>todos_collection := update_first (has_id i) (set_fields changes) (todos_collection s')\<rparr>))"

text \<open>\<^verbatim>\<open>delete_one\<close> returns \<^verbatim>\<open>deleted_count\<close>.\<close>

definition delete_one :: "oid \<Rightarrow> state \<Rightarrow> (exn + nat) \<times> state" where
  "delete_one i s =
     (let (failed, s') = issue (DeleteOne i) s in
      if failed then (Inl PyMongoError, s')
      else (Inr (if (\<exists>x \<in> set (todos_collection s'). has_id i x) then 1 else 0),
            s'\<lparr>todos_collection := delete_first (has_id i) (todos_collection s')\<rparr>))"

definition count_documents :: "state \<Rightarrow> (exn + nat) \<times> state" where
  "count_documents s =
     (let (failed, s') = issue CountDocuments s in
      if failed then (Inl PyMongoError, s')
      else (Inr (count_active (todos_collection s')), s'))"

definition ping :: "state \<Rightarrow> (exn + unit) \<times> state" where
  "ping s =
     (let (failed, s') = issue Ping s in
      if failed then (Inl PyMongoError, s') else (Inr (), s'))"

section \<open>Helper functions\<close>

text \<open>
  \<^verbatim>\<open>update_active_todos_count\<close>: the count query, then the gauge is set; a
  \<^verbatim>\<open>PyMongoError\<close> of the query is caught here and counted under the label
  \<^verbatim>\<open>count\<close>. The query raises nothing else, so the function always returns.
\<close>

definition update_active_todos_count :: "state \<Rightarrow> state" where
  "update_active_todos_count s =
     (case count_documents s of
        (Inr count, s') \<Rightarrow> set_active_todos (int count) s'
      | (Inl e, s') \<Rightarrow> inc_db_errors ''count'' s')"

text \<open>
  \<^verbatim>\<open>serialize_todo\<close>: subscripting \<^verbatim>\<open>None\<close> raises \<^verbatim>\<open>TypeError\<close>, a missing
  \<^verbatim>\<open>_id\<close> or \<^verbatim>\<open>title\<close> raises \<^verbatim>\<open>KeyError\<close>, the other fields are read with
  \<^verbatim>\<open>get\<close> and a default.
\<close>

definition serialize_todo :: "doc option \<Rightarrow> exn + doc" where
  "serialize_todo t =
     (case t of
        None \<Rightarrow> Inl TypeError
      | Some todo \<Rightarrow>
          (case map_of todo ''_id'' of
             None \<Rightarrow> Inl (KeyError ''_id'')
           | Some i \<Rightarrow>
               (case map_of todo ''title'' of
                  None \<Rightarrow> Inl (KeyError ''title'')
                | Some ti \<Rightarrow>
                    Inr [(''id'', VStr (py_str i)),
                         (''title'', ti),
                         (''description'', dict_get todo ''description'' VNone),
                         (''completed'', dict_get todo ''completed'' (VBool False)),
                         (''createdAt'', VStr (py_str (dict_get todo ''createdAt'' (VStr ''''))))])))"

fun serialize_all :: "doc list \<Rightarrow> exn + doc list" where
  "serialize_all [] = Inr []"
| "serialize_all (d # ds) =
     (case serialize_todo (Some d) of
        Inl e \<Rightarrow> Inl e
      | Inr x \<Rightarrow> (case serialize_all ds of Inl e \<Rightarrow> Inl e | Inr xs \<Rightarrow> Inr (x # xs)))"

text \<open>
  \<^verbatim>\<open>track_request_time\<close>: the wrapper runs the handler and records one observation,
  labelled with status 200 when the handler returns and 500 when it raises (the
  \<^verbatim>\<open>status_code\<close> argument is not used). The elapsed time is an argument.
\<close>

definition track_request_time ::
  "string \<Rightarrow> string \<Rightarrow> nat \<Rightarrow> real \<Rightarrow> (state \<Rightarrow> (exn + 'a) \<times> state) \<Rightarrow> state \<Rightarrow> (exn + 'a) \<times> state" where
  "track_request_time method endpoint status_code duration func s =
     (case func s of
        (Inr result, s') \<Rightarrow> (Inr result, observe method endpoint 200 duration s')
      | (Inl e, s') \<Rightarrow> (Inl e, observe method endpoint 500 duration s'))"

section \<open>Routes\<close>

datatype content =
    Dict doc
  | DictList "doc list"
  | Exposition registry
  | Plain string

record response =
  status_code :: nat
  body :: content

definition health_check :: "state \<Rightarrow> (exn + content) \<times> state" where
  "health_check s = (Inr (Dict [(''status'', VStr ''ok'')]), s)"

definition live :: "state \<Rightarrow> (exn + content) \<times> state" where
  "live s = (Inr (Dict [(''status'', VStr ''alive'')]), s)"

definition ready :: "state \<Rightarrow> (exn + content) \<times> state" where
  "ready s =
     (case ping s of
        (Inr u, s') \<Rightarrow> (Inr (Dict [(''status'', VStr ''ready'')]), s')
      | (Inl e, s') \<Rightarrow> (Inl (HTTPException 503 ''MongoDB not ready''), s'))"

text \<open>
  \<^verbatim>\<open>generate_latest(REGISTRY)\<close> renders the registry as text; the body of the
  response is the registry that is rendered.
\<close>

definition metrics_route :: "state \<Rightarrow> (exn + content) \<times> state" where
  "metrics_route s = (Inr (Exposition (metrics s)), s)"

definition get_todos :: "state \<Rightarrow> (exn + content) \<times> state" where
  "get_todos s =
     (case find_all s of
        (Inl e, s') \<Rightarrow>
          (Inl (HTTPException 500 ''Failed to fetch todos''), inc_db_errors ''find'' s')
      | (Inr todos, s') \<Rightarrow>
          (case serialize_all todos of
             Inl e \<Rightarrow> (Inl e, s')
           | Inr xs \<Rightarrow> (Inr (DictList xs), s')))"

subsection \<open>POST /todos\<close>

text \<open>The body of the \<^verbatim>\<open>try\<close> block, then the \<^verbatim>\<open>except\<close> clause.\<close>

definition create_todo_try :: "oid \<Rightarrow> TodoCreate \<Rightarrow> state \<Rightarrow> (exn + content) \<times> state" where
  "create_todo_try new_id todo s =
     (let todo_dict = AList.update ''completed'' (VBool False) (dict_of_create todo) in
      case insert_one new_id todo_dict s of
        (Inl e, s1) \<Rightarrow> (Inl e, s1)
      | (Inr inserted_id, s1) \<Rightarrow>
          (let s2 = update_active_todos_count (inc_todos_created s1) in
           case find_one inserted_id s2 of
             (Inl e, s3) \<Rightarrow> (Inl e, s3)
           | (Inr created_todo, s3) \<Rightarrow>
               (case serialize_todo created_todo of
                  Inl e \<Rightarrow> (Inl e, s3)
                | Inr d \<Rightarrow> (Inr (Dict d), s3))))"

fun create_todo_except :: "(exn + content) \<times> state \<Rightarrow> (exn + content) \<times> state" where
  "create_todo_except (Inl PyMongoError, s) =
     (Inl (HTTPException 500 ''Failed to create todo''), inc_db_errors ''create'' s)"
| "create_todo_except r = r"

definition create_todo :: "oid \<Rightarrow> TodoCreate \<Rightarrow> state \<Rightarrow> (exn + content) \<times> state" where
  "create_todo new_id todo s = create_todo_except (create_todo_try new_id todo s)"

subsection \<open>PUT /todos/{todo_id}\<close>

text \<open>
  \<^verbatim>\<open>ObjectId(todo_id)\<close> is evaluated before each query that uses it; it depends on
  the string only, so the first evaluation decides. A document that \<^verbatim>\<open>find_one\<close>
  returns holds \<^verbatim>\<open>_id\<close> and is a non-empty dictionary, so \<^verbatim>\<open>not existing_todo\<close>
  holds exactly for \<^verbatim>\<open>None\<close>.
\<close>

text \<open>
  The dictionary \<^verbatim>\<open>update_dict\<close>: the fields of the body that are not \<^verbatim>\<open>None\<close>.
\<close>

definition update_dict_of :: "TodoUpdate \<Rightarrow> doc" where
  "update_dict_of todo_update = filter (\<lambda>(k, v). v \<noteq> VNone) (dict_of_update todo_update)"

text \<open>The statement under the comment \<^verbatim>\<open># Track completion\<close>.\<close>

definition track_completion :: "doc \<Rightarrow> doc \<Rightarrow> state \<Rightarrow> state" where
  "track_completion update_dict existing_todo s =
     (if truthy (dict_get update_dict ''completed'' VNone)
         \<and> \<not> truthy (dict_get existing_todo ''completed'' (VBool False))
      then inc_todos_completed s else s)"

definition update_todo_try :: "string \<Rightarrow> TodoUpdate \<Rightarrow> state \<Rightarrow> (exn + content) \<times> state" where
  "update_todo_try todo_id todo_update s =
     (case ObjectId todo_id of
        Inl e \<Rightarrow> (Inl e, s)
      | Inr i \<Rightarrow>
          (case find_one i s of
             (Inl e, s1) \<Rightarrow> (Inl e, s1)
           | (Inr None, s1) \<Rightarrow> (Inl (HTTPException 404 ''Todo not found''), s1)
           | (Inr (Some existing_todo), s1) \<Rightarrow>
               (let update_dict = update_dict_of todo_update in
                if update_dict = [] then
                  (case serialize_todo (Some existing_todo) of
                     Inl e \<Rightarrow> (Inl e, s1)
                   | Inr d \<Rightarrow> (Inr (Dict d), s1))
                else
                  (let s2 = track_completion update_dict existing_todo s1 in
                   case update_one i update_dict s2 of
                     (Inl e, s3) \<Rightarrow> (Inl e, s3)
                   | (Inr u, s3) \<Rightarrow>
                       (case find_one i s3 of
                          (Inl e, s4) \<Rightarrow> (Inl e, s4)
                        | (Inr updated_todo, s4) \<Rightarrow>
                            (let s5 = update_active_todos_count s4 in
                             case serialize_todo updated_todo of
                               Inl e \<Rightarrow> (Inl e, s5)
                             | Inr d \<Rightarrow> (Inr (Dict d), s5)))))))"

text \<open>
  The two \<^verbatim>\<open>except\<close> clauses: \<^verbatim>\<open>PyMongoError\<close> first, then \<^verbatim>\<open>Exception\<close>, which
  is a base class of every other exception raised in the block, \<^verbatim>\<open>HTTPException\<close>
  included.
\<close>

fun update_todo_except :: "(exn + content) \<times> state \<Rightarrow> (exn + content) \<times> state" where
  "update_todo_except (Inl PyMongoError, s) =
     (Inl (HTTPException 500 ''Failed to update todo''), inc_db_errors ''update'' s)"
| "update_todo_except (Inl e, s) = (Inl (HTTPException 400 ''Invalid todo ID''), s)"
| "update_todo_except (Inr v, s) = (Inr v, s)"

definition update_todo :: "string \<Rightarrow> TodoUpdate \<Rightarrow> state \<Rightarrow> (exn + content) \<times> state" where
  "update_todo todo_id todo_update s = update_todo_except (update_todo_try todo_id todo_update s)"

subsection \<open>DELETE /todos/{todo_id}\<close>

definition delete_todo_try :: "string \<Rightarrow> state \<Rightarrow> (exn + content) \<times> state" where
  "delete_todo_try todo_id s =
     (case ObjectId todo_id of
        Inl e \<Rightarrow> (Inl e, s)
      | Inr i \<Rightarrow>
          (case delete_one i s of
             (Inl e, s1) \<Rightarrow> (Inl e, s1)
           | (Inr deleted_count, s1) \<Rightarrow>
               if deleted_count = 0 then (Inl (HTTPException 404 ''Todo not found''), s1)
               else (Inr (Dict [(''message'', VStr ''Todo deleted'')]),
                     update_active_todos_count (inc_todos_deleted s1))))"

fun delete_todo_except :: "(exn + content) \<times> state \<Rightarrow> (exn + content) \<times> state" where
  "delete_todo_except (Inl PyMongoError, s) =
     (Inl (HTTPException 500 ''Failed to delete todo''), inc_db_errors ''delete'' s)"
| "delete_todo_except (Inl e, s) = (Inl (HTTPException 400 ''Invalid todo ID''), s)"
| "delete_todo_except (Inr v, s) = (Inr v, s)"

definition delete_todo :: "string \<Rightarrow> state \<Rightarrow> (exn + content) \<times> state" where
  "delete_todo todo_id s = delete_todo_except (delete_todo_try todo_id s)"

section \<open>The application\<close>

text \<open>
  A returned value is sent with the route's status code (201 for \<^verbatim>\<open>POST /todos\<close>, 200
  elsewhere), an \<^verbatim>\<open>HTTPException\<close> with its own status and detail, any other
  exception as the server's status 500.
\<close>

fun respond :: "nat \<Rightarrow> exn + content \<Rightarrow> response" where
  "respond ok (Inr c) = \<lparr>status_code = ok, body = c\<rparr>"
| "respond ok (Inl (HTTPException code detail)) =
     \<lparr>status_code = code, body = Dict [(''detail'', VStr detail)]\<rparr>"
| "respond ok (Inl e) = \<lparr>status_code = 500, body = Plain ''Internal Server Error''\<rparr>"

text \<open>
  A request as the application receives it: the route, the path parameter and the
  validated body. \<open>POST_todos\<close> also carries the identifier that the driver generates
  for the inserted document.
\<close>

datatype request =
    GET_health
  | GET_live
  | GET_ready
  | GET_metrics
  | GET_todos
  | POST_todos TodoCreate oid
  | PUT_todos string TodoUpdate
  | DELETE_todos string

text \<open>The routes as the decorators of \<^verbatim>\<open>main.py\<close> register them.\<close>

fun handle :: "request \<Rightarrow> state \<Rightarrow> response \<times> state" where
  "handle GET_health s = (case health_check s of (r, s') \<Rightarrow> (respond 200 r, s'))"
| "handle GET_live s = (case live s of (r, s') \<Rightarrow> (respond 200 r, s'))"
| "handle GET_ready s = (case ready s of (r, s') \<Rightarrow> (respond 200 r, s'))"
| "handle GET_metrics s = (case metrics_route s of (r, s') \<Rightarrow> (respond 200 r, s'))"
| "handle GET_todos s = (case get_todos s of (r, s') \<Rightarrow> (respond 200 r, s'))"
| "handle (POST_todos todo new_id) s =
     (case create_todo new_id todo s of (r, s') \<Rightarrow> (respond 201 r, s'))"
| "handle (PUT_todos todo_id todo_update) s =
     (case update_todo todo_id todo_update s of (r, s') \<Rightarrow> (respond 200 r, s'))"
| "handle (DELETE_todos todo_id) s =
     (case delete_todo todo_id s of (r, s') \<Rightarrow> (respond 200 r, s'))"

fun run :: "request list \<Rightarrow> state \<Rightarrow> state" where
  "run [] s = s"
| "run (r # rs) s = run rs (snd (handle r s))"

text \<open>
  The start of the process (\<^verbatim>\<open>lifespan\<close> up to \<^verbatim>\<open>yield\<close>): the connection is checked
  with a ping, the connection gauge is set, and the active count is taken once. A failed
  ping sets the gauge to 0 and aborts the start.
\<close>

definition startup :: "state \<Rightarrow> exn + state" where
  "startup s =
     (case ping s of
        (Inl e, s') \<Rightarrow> Inl e
      | (Inr u, s') \<Rightarrow> Inr (update_active_todos_count (set_mongo_connections 1 s')))"

definition fresh_registry :: registry where
  "fresh_registry =
     \<lparr>http_request_duration = [], todos_created = 0, todos_deleted = 0, todos_completed = 0,
      active_todos = 0, db_errors = (\<lambda>operation. 0), mongo_connections = 0\<rparr>"

text \<open>The state of a new process over a collection and the storage outcomes to come.\<close>

definition process_start :: "doc list \<Rightarrow> bool list \<Rightarrow> state" where
  "process_start ds fs = \<lparr>todos_collection = ds, metrics = fresh_registry, faults = fs, calls = []\<rparr>"

section \<open>Predicates and sample data of the properties\<close>

text \<open>Every coming storage call succeeds.\<close>

definition no_faults :: "state \<Rightarrow> bool" where
  "no_faults s = list_all (\<lambda>f. \<not> f) (faults s)"

text \<open>
  The invariant of a run without storage failures: no coming call fails, and the gauge is
  the number of documents whose \<^verbatim>\<open>completed\<close> field is \<^verbatim>\<open>False\<close>.
\<close>

definition gauge_inv :: "state \<Rightarrow> bool" where
  "gauge_inv s =
     (no_faults s \<and> active_todos (metrics s) = int (count_active (todos_collection s)))"

text \<open>Sample requests, documents and states.\<close>

definition zero_id :: string where
  "zero_id = ''000000000000000000000000''"

definition zero_oid :: oid where
  "zero_oid = [0, 0, 0, 0, 0, 0, 0, 0, 0, 0, 0, 0, 0, 0, 0, 0, 0, 0, 0, 0, 0, 0, 0, 0]"




definition todo_1 :: TodoCreate where
  "todo_1 = \<lparr>c_title = ''Todo 1'', c_description = None, c_completed = True\<rparr>"

definition no_fields :: TodoUpdate where
  "no_fields = \<lparr>u_title = None, u_description = None, u_completed = None\<rparr>"

definition mark_completed :: TodoUpdate where
  "mark_completed = \<lparr>u_title = None, u_description = None, u_completed = Some True\<rparr>"

text \<open>The document that \<^verbatim>\<open>POST /todos\<close> stores for \<open>todo_1\<close> under \<open>zero_oid\<close>.\<close>

definition stored_1 :: doc where
  "stored_1 =
     [(''title'', VStr ''Todo 1''), (''description'', VNone), (''completed'', VBool False),
      (''_id'', VOid zero_oid)]"

text \<open>The response body for that document once it is marked completed.\<close>

definition completed_1 :: doc where
  "completed_1 =
     [(''id'', VStr zero_id), (''title'', VStr ''Todo 1''), (''description'', VNone),
      (''completed'', VBool True), (''createdAt'', VStr '''')]"

text \<open>The response body of \<^verbatim>\<open>POST /todos\<close> for \<open>todo_1\<close> under \<open>zero_oid\<close>.\<close>

definition created_1 :: doc where
  "created_1 =
     [(''id'', VStr zero_id), (''title'', VStr ''Todo 1''), (''description'', VNone),
      (''completed'', VBool False), (''createdAt'', VStr '''')]"

definition marked_once :: state where
  "marked_once = snd (update_todo zero_id mark_completed (process_start [stored_1] []))"

definition marked_twice :: state where
  "marked_twice = snd (update_todo zero_id mark_completed marked_once)"

text \<open>
  A process over one stored item whose start-up ping succeeded and whose start-up count
  failed.
\<close>

definition stale_start :: state where
  "stale_start = projr (startup (process_start [stored_1] [False, True]))"

section \<open>Effects of the storage calls\<close>

lemma issue_eq:
  "issue c s =
     (faults s \<noteq> [] \<and> hd (faults s), s\<lparr>faults := tl (faults s), calls := calls s @ [c]\<rparr>)"
  by (cases "faults s") (simp_all add: issue_def)

lemma issue_ok:
  "no_faults s \<Longrightarrow> issue c s = (False, s\<lparr>faults := tl (faults s), calls := calls s @ [c]\<rparr>)"
  by (cases "faults s") (simp_all add: issue_def no_faults_def)

lemma list_all_tl: "list_all P xs \<Longrightarrow> list_all P (tl xs)"
  by (cases xs) simp_all

lemmas metric_defs = inc_todos_created_def inc_todos_deleted_def inc_todos_completed_def
  set_active_todos_def set_mongo_connections_def inc_db_errors_def

lemmas storage_defs = find_all_def find_one_def insert_one_def update_one_def delete_one_def
  count_documents_def ping_def

lemma collection_metric [simp]:
  "todos_collection (inc_todos_created s) = todos_collection s"
  "todos_collection (inc_todos_deleted s) = todos_collection s"
  "todos_collection (inc_todos_completed s) = todos_collection s"
  "todos_collection (inc_db_errors l s) = todos_collection s"
  "todos_collection (set_mongo_connections n s) = todos_collection s"
  "todos_collection (set_active_todos k s) = todos_collection s"
  by (simp_all add: metric_defs)

lemma faults_metric [simp]:
  "faults (inc_todos_created s) = faults s"
  "faults (inc_todos_deleted s) = faults s"
  "faults (inc_todos_completed s) = faults s"
  "faults (inc_db_errors l s) = faults s"
  "faults (set_mongo_connections n s) = faults s"
  "faults (set_active_todos k s) = faults s"
  by (simp_all add: metric_defs)

lemma calls_metric [simp]:
  "calls (inc_todos_created s) = calls s"
  "calls (inc_todos_deleted s) = calls s"
  "calls (inc_todos_completed s) = calls s"
  "calls (inc_db_errors l s) = calls s"
  "calls (set_mongo_connections n s) = calls s"
  "calls (set_active_todos k s) = calls s"
  by (simp_all add: metric_defs)

lemma gauge_inv_metric [simp]:
  "active_todos (metrics (inc_todos_created s)) = active_todos (metrics s)"
  "active_todos (metrics (inc_todos_deleted s)) = active_todos (metrics s)"
  "active_todos (metrics (inc_todos_completed s)) = active_todos (metrics s)"
  "active_todos (metrics (inc_db_errors l s)) = active_todos (metrics s)"
  "active_todos (metrics (set_mongo_connections n s)) = active_todos (metrics s)"
  "active_todos (metrics (set_active_todos k s)) = k"
  by (simp_all add: metric_defs)

lemma observations_metric [simp]:
  "http_request_duration (metrics (inc_todos_created s)) = http_request_duration (metrics s)"
  "http_request_duration (metrics (inc_todos_deleted s)) = http_request_duration (metrics s)"
  "http_request_duration (metrics (inc_todos_completed s)) = http_request_duration (metrics s)"
  "http_request_duration (metrics (inc_db_errors l s)) = http_request_duration (metrics s)"
  "http_request_duration (metrics (set_mongo_connections n s)) = http_request_duration (metrics s)"
  "http_request_duration (metrics (set_active_todos k s)) = http_request_duration (metrics s)"
  "http_request_duration (metrics (track_completion ud ex s)) = http_request_duration (metrics s)"
  by (simp_all add: metric_defs track_completion_def)

lemma db_errors_frame [simp]:
  "db_errors (metrics (inc_todos_created s)) = db_errors (metrics s)"
  "db_errors (metrics (inc_todos_deleted s)) = db_errors (metrics s)"
  "db_errors (metrics (inc_todos_completed s)) = db_errors (metrics s)"
  "db_errors (metrics (set_active_todos k s)) = db_errors (metrics s)"
  "db_errors (metrics (set_mongo_connections n s)) = db_errors (metrics s)"
  by (simp_all add: metric_defs)

lemma todos_completed_frame [simp]:
  "todos_completed (metrics (track_completion ud ex s)) =
     todos_completed (metrics s) +
       (if truthy (dict_get ud ''completed'' VNone) \<and> \<not> truthy (dict_get ex ''completed'' (VBool False))
        then 1 else 0)"
  by (simp add: track_completion_def inc_todos_completed_def)

lemma track_completion_frame [simp]:
  "todos_collection (track_completion ud ex s) = todos_collection s"
  "calls (track_completion ud ex s) = calls s"
  "faults (track_completion ud ex s) = faults s"
  "active_todos (metrics (track_completion ud ex s)) = active_todos (metrics s)"
  "db_errors (metrics (track_completion ud ex s)) = db_errors (metrics s)"
  by (simp_all add: track_completion_def inc_todos_completed_def)

lemma metrics_storage [simp]:
  "metrics (snd (find_all s)) = metrics s"
  "metrics (snd (find_one i s)) = metrics s"
  "metrics (snd (insert_one n d s)) = metrics s"
  "metrics (snd (update_one i ch s)) = metrics s"
  "metrics (snd (delete_one i s)) = metrics s"
  "metrics (snd (count_documents s)) = metrics s"
  "metrics (snd (ping s)) = metrics s"
  by (simp_all add: storage_defs issue_eq)

lemma calls_storage [simp]:
  "calls (snd (find_all s)) = calls s @ [Find]"
  "calls (snd (find_one i s)) = calls s @ [FindOne i]"
  "calls (snd (insert_one n d s)) = calls s @ [InsertOne d]"
  "calls (snd (update_one i ch s)) = calls s @ [UpdateOne i ch]"
  "calls (snd (delete_one i s)) = calls s @ [DeleteOne i]"
  "calls (snd (count_documents s)) = calls s @ [CountDocuments]"
  "calls (snd (ping s)) = calls s @ [Ping]"
  by (simp_all add: storage_defs issue_eq)

lemma faults_storage [simp]:
  "faults (snd (find_all s)) = tl (faults s)"
  "faults (snd (find_one i s)) = tl (faults s)"
  "faults (snd (insert_one n d s)) = tl (faults s)"
  "faults (snd (update_one i ch s)) = tl (faults s)"
  "faults (snd (delete_one i s)) = tl (faults s)"
  "faults (snd (count_documents s)) = tl (faults s)"
  "faults (snd (ping s)) = tl (faults s)"
  by (simp_all add: storage_defs issue_eq)

lemma collection_reads [simp]:
  "todos_collection (snd (find_all s)) = todos_collection s"
  "todos_collection (snd (find_one i s)) = todos_collection s"
  "todos_collection (snd (count_documents s)) = todos_collection s"
  "todos_collection (snd (ping s)) = todos_collection s"
  by (simp_all add: storage_defs issue_eq)

lemma find_one_value:
  "fst (find_one i s) = Inr r \<Longrightarrow> r = find (has_id i) (todos_collection s)"
  by (simp add: find_one_def issue_eq split: if_splits)

lemma update_one_written:
  "fst (update_one i ch s) = Inr u \<Longrightarrow>
     todos_collection (snd (update_one i ch s)) =
       update_first (has_id i) (set_fields ch) (todos_collection s)"
  by (auto simp: update_one_def issue_eq split: if_splits)

lemma insert_one_value:
  "fst (insert_one n d s) = Inr x \<Longrightarrow>
     x = n \<and> \<not> list_ex (has_id n) (todos_collection s)
     \<and> todos_collection (snd (insert_one n d s)) =
         todos_collection s @ [AList.update ''_id'' (VOid n) d]"
  by (auto simp: insert_one_def issue_eq list_ex_iff split: if_splits)

lemma delete_one_value:
  "fst (delete_one i s) = Inr k \<Longrightarrow>
     k = (if list_ex (has_id i) (todos_collection s) then 1 else 0)
     \<and> todos_collection (snd (delete_one i s)) = delete_first (has_id i) (todos_collection s)"
  by (auto simp: delete_one_def issue_eq list_ex_iff split: if_splits)

lemma count_frame [simp]:
  "todos_collection (update_active_todos_count s) = todos_collection s"
  "calls (update_active_todos_count s) = calls s @ [CountDocuments]"
  "faults (update_active_todos_count s) = tl (faults s)"
  "http_request_duration (metrics (update_active_todos_count s)) = http_request_duration (metrics s)"
  "todos_created (metrics (update_active_todos_count s)) = todos_created (metrics s)"
  "todos_deleted (metrics (update_active_todos_count s)) = todos_deleted (metrics s)"
  "todos_completed (metrics (update_active_todos_count s)) = todos_completed (metrics s)"
  "mongo_connections (metrics (update_active_todos_count s)) = mongo_connections (metrics s)"
  by (simp_all add: update_active_todos_count_def count_documents_def issue_eq metric_defs)

text \<open>The two outcomes of the count: the gauge is set, or the error is counted.\<close>

lemma count_outcome:
  "(active_todos (metrics (update_active_todos_count s)) = int (count_active (todos_collection s))
      \<and> db_errors (metrics (update_active_todos_count s)) = db_errors (metrics s))
   \<or> (active_todos (metrics (update_active_todos_count s)) = active_todos (metrics s)
      \<and> db_errors (metrics (update_active_todos_count s)) ''count'' =
          db_errors (metrics s) ''count'' + 1)"
  by (simp add: update_active_todos_count_def count_documents_def issue_eq metric_defs)

lemma count_publishes:
  "db_errors (metrics (update_active_todos_count s)) ''count'' = db_errors (metrics s) ''count''
   \<Longrightarrow> active_todos (metrics (update_active_todos_count s)) =
         int (count_active (todos_collection (update_active_todos_count s)))"
  using count_outcome [of s] by auto

lemma delete_first_absent: "\<not> list_ex P xs \<Longrightarrow> delete_first P xs = xs"
  by (induction xs) auto

lemma find_append_absent: "\<not> list_ex P xs \<Longrightarrow> find P (xs @ ys) = find P ys"
  by (induction xs) auto

lemma find_update_first:
  "find P xs = Some x \<Longrightarrow> P (f x) \<Longrightarrow> find P (update_first P f xs) = Some (f x)"
  by (induction xs) (auto split: if_splits)

section \<open>Storage calls that do not fail\<close>

text \<open>What each call returns and leaves behind when no coming call fails.\<close>

lemma find_one_ok:
  "no_faults s \<Longrightarrow> find_one i s =
     (Inr (find (has_id i) (todos_collection s)),
      s\<lparr>faults := tl (faults s), calls := calls s @ [FindOne i]\<rparr>)"
  by (simp add: find_one_def issue_ok)

lemma find_all_ok:
  "no_faults s \<Longrightarrow> find_all s =
     (Inr (todos_collection s), s\<lparr>faults := tl (faults s), calls := calls s @ [Find]\<rparr>)"
  by (simp add: find_all_def issue_ok)

lemma ping_ok:
  "no_faults s \<Longrightarrow> ping s = (Inr (), s\<lparr>faults := tl (faults s), calls := calls s @ [Ping]\<rparr>)"
  by (simp add: ping_def issue_ok)

lemma update_one_ok:
  "no_faults s \<Longrightarrow> update_one i ch s =
     (Inr (), s\<lparr>faults := tl (faults s), calls := calls s @ [UpdateOne i ch],
        todos_collection := update_first (has_id i) (set_fields ch) (todos_collection s)\<rparr>)"
  by (simp add: update_one_def issue_ok)

lemma delete_one_ok:
  "no_faults s \<Longrightarrow> delete_one i s =
     (if list_ex (has_id i) (todos_collection s)
      then (Inr 1, s\<lparr>faults := tl (faults s), calls := calls s @ [DeleteOne i],
              todos_collection := delete_first (has_id i) (todos_collection s)\<rparr>)
      else (Inr 0, s\<lparr>faults := tl (faults s), calls := calls s @ [DeleteOne i]\<rparr>))"
  by (simp add: delete_one_def issue_ok delete_first_absent list_ex_iff)

lemma insert_one_ok:
  "no_faults s \<Longrightarrow> insert_one n d s =
     (if list_ex (has_id n) (todos_collection s)
      then (Inl PyMongoError, s\<lparr>faults := tl (faults s), calls := calls s @ [InsertOne d]\<rparr>)
      else (Inr n, s\<lparr>faults := tl (faults s), calls := calls s @ [InsertOne d],
              todos_collection := todos_collection s @ [AList.update ''_id'' (VOid n) d]\<rparr>))"
  by (simp add: insert_one_def issue_ok list_ex_iff)

lemma count_ok:
  "no_faults s \<Longrightarrow> update_active_todos_count s =
     set_active_todos (int (count_active (todos_collection s)))
       (s\<lparr>faults := tl (faults s), calls := calls s @ [CountDocuments]\<rparr>)"
  by (simp add: update_active_todos_count_def count_documents_def issue_ok)

lemmas ok_rules = find_one_ok find_all_ok ping_ok update_one_ok delete_one_ok insert_one_ok
  count_ok no_faults_def list_all_tl

section \<open>Identifiers, request bodies and documents\<close>

lemma ObjectId_raises: "ObjectId todo_id = Inl e \<Longrightarrow> e = InvalidId"
  by (simp add: ObjectId_def split: if_splits option.splits)

lemma update_dict_empty:
  "update_dict_of u = [] \<longleftrightarrow> u_title u = None \<and> u_description u = None \<and> u_completed u = None"
  by (cases "u_title u"; cases "u_description u"; cases "u_completed u")
     (simp_all add: update_dict_of_def dict_of_update_def opt_str_def opt_bool_def)

lemma update_dict_completed:
  "truthy (dict_get (update_dict_of u) ''completed'' VNone) \<longleftrightarrow> u_completed u = Some True"
  by (cases "u_title u"; cases "u_description u"; cases "u_completed u")
     (simp_all add: update_dict_of_def dict_of_update_def dict_get_def opt_str_def opt_bool_def)

lemma set_fields_update_dict:
  "map_of (set_fields (update_dict_of u) d) ''_id'' = map_of d ''_id''"
  "map_of (set_fields (update_dict_of u) d) ''title'' =
     (case u_title u of None \<Rightarrow> map_of d ''title'' | Some t \<Rightarrow> Some (VStr t))"
  "map_of (set_fields (update_dict_of u) d) ''completed'' =
     (case u_completed u of None \<Rightarrow> map_of d ''completed'' | Some b \<Rightarrow> Some (VBool b))"
  by (cases "u_title u"; cases "u_description u"; cases "u_completed u";
      simp add: update_dict_of_def dict_of_update_def set_fields_def opt_str_def opt_bool_def
        update_conv')+

text \<open>The document that \<^verbatim>\<open>create_todo\<close> hands to \<^verbatim>\<open>insert_one\<close>, once stored.\<close>

lemma stored_document:
  "AList.update ''_id'' (VOid new_id)
     (AList.update ''completed'' (VBool False) (dict_of_create todo)) =
   [(''title'', VStr (c_title todo)), (''description'', opt_str (c_description todo)),
    (''completed'', VBool False), (''_id'', VOid new_id)]"
  by (simp add: dict_of_create_def)

lemma serialize_todo_ok:
  "map_of d ''_id'' = Some a \<Longrightarrow> map_of d ''title'' = Some b \<Longrightarrow>
     \<exists>x. serialize_todo (Some d) = Inr x"
  by (simp add: serialize_todo_def)

section \<open>The paths through the handlers\<close>

text \<open>The \<^verbatim>\<open>except\<close> clauses on a raised exception.\<close>

lemma create_todo_except_Inl:
  "create_todo_except (Inl e, s) =
     (if e = PyMongoError
      then (Inl (HTTPException 500 ''Failed to create todo''), inc_db_errors ''create'' s)
      else (Inl e, s))"
  by (cases e) simp_all

lemma update_todo_except_Inl:
  "update_todo_except (Inl e, s) =
     (if e = PyMongoError
      then (Inl (HTTPException 500 ''Failed to update todo''), inc_db_errors ''update'' s)
      else (Inl (HTTPException 400 ''Invalid todo ID''), s))"
  by (cases e) simp_all

lemma delete_todo_except_Inl:
  "delete_todo_except (Inl e, s) =
     (if e = PyMongoError
      then (Inl (HTTPException 500 ''Failed to delete todo''), inc_db_errors ''delete'' s)
      else (Inl (HTTPException 400 ''Invalid todo ID''), s))"
  by (cases e) simp_all

lemma create_todo_except_Inr:
  "create_todo_except p = (Inr c, s') \<longleftrightarrow> p = (Inr c, s')"
  by (cases p rule: create_todo_except.cases) auto

lemma update_todo_except_Inr:
  "update_todo_except p = (Inr c, s') \<longleftrightarrow> p = (Inr c, s')"
  by (cases p rule: update_todo_except.cases) auto

lemma delete_todo_except_Inr:
  "delete_todo_except p = (Inr c, s') \<longleftrightarrow> p = (Inr c, s')"
  by (cases p rule: delete_todo_except.cases) auto

lemma update_todo_try_cases [case_names invalid find_failed absent no_fields update_failed
    reread_failed updated]:
  obtains
    e where "ObjectId todo_id = Inl e"
      and "update_todo_try todo_id todo_update s = (Inl e, s)"
  | i e where "ObjectId todo_id = Inr i" and "fst (find_one i s) = Inl e"
      and "update_todo_try todo_id todo_update s = (Inl e, snd (find_one i s))"
  | i where "ObjectId todo_id = Inr i" and "fst (find_one i s) = Inr None"
      and "update_todo_try todo_id todo_update s =
             (Inl (HTTPException 404 ''Todo not found''), snd (find_one i s))"
  | i existing_todo where "ObjectId todo_id = Inr i"
      and "fst (find_one i s) = Inr (Some existing_todo)"
      and "update_dict_of todo_update = []"
      and "update_todo_try todo_id todo_update s =
             (case serialize_todo (Some existing_todo) of
                Inl e \<Rightarrow> (Inl e, snd (find_one i s))
              | Inr d \<Rightarrow> (Inr (Dict d), snd (find_one i s)))"
  | i existing_todo e where "ObjectId todo_id = Inr i"
      and "fst (find_one i s) = Inr (Some existing_todo)"
      and "update_dict_of todo_update \<noteq> []"
      and "fst (update_one i (update_dict_of todo_update)
             (track_completion (update_dict_of todo_update) existing_todo (snd (find_one i s)))) = Inl e"
      and "update_todo_try todo_id todo_update s =
             (Inl e, snd (update_one i (update_dict_of todo_update)
               (track_completion (update_dict_of todo_update) existing_todo (snd (find_one i s)))))"
  | i existing_todo u e where "ObjectId todo_id = Inr i"
      and "fst (find_one i s) = Inr (Some existing_todo)"
      and "update_dict_of todo_update \<noteq> []"
      and "fst (update_one i (update_dict_of todo_update)
             (track_completion (update_dict_of todo_update) existing_todo (snd (find_one i s)))) = Inr u"
      and "fst (find_one i (snd (update_one i (update_dict_of todo_update)
             (track_completion (update_dict_of todo_update) existing_todo (snd (find_one i s)))))) = Inl e"
      and "update_todo_try todo_id todo_update s =
             (Inl e, snd (find_one i (snd (update_one i (update_dict_of todo_update)
               (track_completion (update_dict_of todo_update) existing_todo (snd (find_one i s)))))))"
  | i existing_todo u updated_todo where "ObjectId todo_id = Inr i"
      and "fst (find_one i s) = Inr (Some existing_todo)"
      and "update_dict_of todo_update \<noteq> []"
      and "fst (update_one i (update_dict_of todo_update)
             (track_completion (update_dict_of todo_update) existing_todo (snd (find_one i s)))) = Inr u"
      and "fst (find_one i (snd (update_one i (update_dict_of todo_update)
             (track_completion (update_dict_of todo_update) existing_todo (snd (find_one i s)))))) = Inr updated_todo"
      and "update_todo_try todo_id todo_update s =
             (case serialize_todo updated_todo of
                Inl e \<Rightarrow> (Inl e, update_active_todos_count (snd (find_one i (snd (update_one i (update_dict_of todo_update)
               (track_completion (update_dict_of todo_update) existing_todo (snd (find_one i s))))))))
              | Inr d \<Rightarrow> (Inr (Dict d), update_active_todos_count (snd (find_one i (snd (update_one i (update_dict_of todo_update)
               (track_completion (update_dict_of todo_update) existing_todo (snd (find_one i s)))))))))"
proof (cases "ObjectId todo_id")
  case (Inl e)
  then show ?thesis using that(1) by (simp add: update_todo_try_def)
next
  case i: (Inr i)
  let ?ud = "update_dict_of todo_update"
  let ?s1 = "snd (find_one i s)"
  show ?thesis
  proof (cases "fst (find_one i s)")
    case r1: (Inl e)
    show ?thesis
      by (rule that(2) [OF i r1]) (simp add: update_todo_try_def Let_def i case_prod_beta r1)
  next
    case (Inr found)
    show ?thesis
    proof (cases found)
      case None
      with Inr have r1: "fst (find_one i s) = Inr None" by simp
      show ?thesis
        by (rule that(3) [OF i r1]) (simp add: update_todo_try_def Let_def i case_prod_beta r1)
    next
      case (Some existing_todo)
      with Inr have r1: "fst (find_one i s) = Inr (Some existing_todo)" by simp
      let ?s2 = "track_completion ?ud existing_todo ?s1"
      let ?s3 = "snd (update_one i ?ud ?s2)"
      show ?thesis
      proof (cases "?ud = []")
        case True
        show ?thesis
          by (rule that(4) [OF i r1 True])
             (simp add: update_todo_try_def Let_def i case_prod_beta r1 True)
      next
        case nonempty: False
        show ?thesis
        proof (cases "fst (update_one i ?ud ?s2)")
          case r3: (Inl e)
          show ?thesis
            by (rule that(5) [OF i r1 nonempty r3])
               (simp add: update_todo_try_def Let_def i case_prod_beta r1 nonempty r3)
        next
          case r3: (Inr u)
          show ?thesis
          proof (cases "fst (find_one i ?s3)")
            case r4: (Inl e)
            show ?thesis
              by (rule that(6) [OF i r1 nonempty r3 r4])
                 (simp add: update_todo_try_def Let_def i case_prod_beta r1 nonempty r3 r4)
          next
            case r4: (Inr updated_todo)
            show ?thesis
              by (rule that(7) [OF i r1 nonempty r3 r4])
                 (simp add: update_todo_try_def Let_def i case_prod_beta r1 nonempty r3 r4)
          qed
        qed
      qed
    qed
  qed
qed

text \<open>What a handler that returns has done.\<close>

lemma create_todo_returns:
  assumes "create_todo new_id todo s = (Inr c, s')"
  obtains created_todo d where
    "fst (insert_one new_id (AList.update ''completed'' (VBool False) (dict_of_create todo)) s)
       = Inr new_id"
    and "fst (find_one new_id (update_active_todos_count (inc_todos_created
          (snd (insert_one new_id (AList.update ''completed'' (VBool False) (dict_of_create todo)) s)))))
       = Inr created_todo"
    and "serialize_todo created_todo = Inr d" and "c = Dict d"
    and "s' = snd (find_one new_id (update_active_todos_count (inc_todos_created
          (snd (insert_one new_id (AList.update ''completed'' (VBool False) (dict_of_create todo)) s)))))"
  using assms
  by (auto simp: create_todo_def create_todo_except_Inr create_todo_try_def Let_def case_prod_beta
      dest: insert_one_value split: sum.splits)

lemma delete_todo_returns:
  assumes "delete_todo todo_id s = (Inr c, s')"
  obtains i where "ObjectId todo_id = Inr i"
    and "fst (delete_one i s) = Inr 1" and "list_ex (has_id i) (todos_collection s)"
    and "c = Dict [(''message'', VStr ''Todo deleted'')]"
    and "s' = update_active_todos_count (inc_todos_deleted (snd (delete_one i s)))"
  using assms
  by (auto simp: delete_todo_def delete_todo_except_Inr delete_todo_try_def case_prod_beta
      dest!: delete_one_value split: sum.splits if_splits)

lemma update_todo_returns [consumes 1, case_names unchanged updated]:
  assumes "update_todo todo_id todo_update s = (Inr c, s')"
  obtains
    i existing_todo d where "ObjectId todo_id = Inr i"
      and "fst (find_one i s) = Inr (Some existing_todo)"
      and "update_dict_of todo_update = []"
      and "serialize_todo (Some existing_todo) = Inr d" and "c = Dict d"
      and "s' = snd (find_one i s)"
  | i existing_todo updated_todo d where "ObjectId todo_id = Inr i"
      and "fst (find_one i s) = Inr (Some existing_todo)"
      and "update_dict_of todo_update \<noteq> []"
      and "fst (update_one i (update_dict_of todo_update)
             (track_completion (update_dict_of todo_update) existing_todo (snd (find_one i s)))) = Inr ()"
      and "fst (find_one i (snd (update_one i (update_dict_of todo_update)
             (track_completion (update_dict_of todo_update) existing_todo (snd (find_one i s))))))
           = Inr updated_todo"
      and "serialize_todo updated_todo = Inr d" and "c = Dict d"
      and "s' = update_active_todos_count (snd (find_one i (snd (update_one i (update_dict_of todo_update)
             (track_completion (update_dict_of todo_update) existing_todo (snd (find_one i s)))))))"
proof -
  from assms have tr: "update_todo_try todo_id todo_update s = (Inr c, s')"
    by (simp add: update_todo_def update_todo_except_Inr)
  show ?thesis
  proof (cases todo_id todo_update s rule: update_todo_try_cases)
    case (no_fields i existing_todo)
    from tr no_fields(4) obtain d where "serialize_todo (Some existing_todo) = Inr d"
      and "c = Dict d" and "s' = snd (find_one i s)"
      by (auto split: sum.splits)
    with no_fields(1-3) show ?thesis
      by (rule that(1))
  next
    case (updated i existing_todo u updated_todo)
    from tr updated(6) obtain d where "serialize_todo updated_todo = Inr d"
      and "c = Dict d"
      and "s' = update_active_todos_count (snd (find_one i (snd (update_one i (update_dict_of todo_update)
             (track_completion (update_dict_of todo_update) existing_todo (snd (find_one i s)))))))"
      by (auto split: sum.splits)
    with updated(1-5) show ?thesis
      by (intro that(2) [of i existing_todo updated_todo d]) simp_all
  qed (use tr in simp_all)
qed

lemma create_todo_result:
  assumes "create_todo new_id todo s = (Inr c, s')"
  shows "todos_collection s' = todos_collection s @
           [[(''title'', VStr (c_title todo)), (''description'', opt_str (c_description todo)),
             (''completed'', VBool False), (''_id'', VOid new_id)]]"
    and "\<not> list_ex (has_id new_id) (todos_collection s)"
    and "c = Dict [(''id'', VStr (py_str (VOid new_id))), (''title'', VStr (c_title todo)),
             (''description'', opt_str (c_description todo)), (''completed'', VBool False),
             (''createdAt'', VStr '''')]"
proof -
  let ?d = "AList.update ''completed'' (VBool False) (dict_of_create todo)"
  let ?s2 = "update_active_todos_count (inc_todos_created (snd (insert_one new_id ?d s)))"
  from assms obtain created_todo d where
    ins: "fst (insert_one new_id ?d s) = Inr new_id"
    and fnd: "fst (find_one new_id ?s2) = Inr created_todo"
    and ser: "serialize_todo created_todo = Inr d" and c: "c = Dict d"
    and s': "s' = snd (find_one new_id ?s2)"
    by (rule create_todo_returns)
  from insert_one_value [OF ins]
  have fresh: "\<not> list_ex (has_id new_id) (todos_collection s)"
    and coll: "todos_collection (snd (insert_one new_id ?d s)) =
      todos_collection s @ [AList.update ''_id'' (VOid new_id) ?d]"
    by simp_all
  show "\<not> list_ex (has_id new_id) (todos_collection s)"
    by (rule fresh)
  show coll': "todos_collection s' = todos_collection s @
           [[(''title'', VStr (c_title todo)), (''description'', opt_str (c_description todo)),
             (''completed'', VBool False), (''_id'', VOid new_id)]]"
    using coll by (simp add: s' stored_document)
  from find_one_value [OF fnd] coll
  have "created_todo = Some [(''title'', VStr (c_title todo)),
      (''description'', opt_str (c_description todo)),
      (''completed'', VBool False), (''_id'', VOid new_id)]"
    by (simp add: stored_document find_append_absent [OF fresh] has_id_def)
  with ser c show "c = Dict [(''id'', VStr (py_str (VOid new_id))), (''title'', VStr (c_title todo)),
             (''description'', opt_str (c_description todo)), (''completed'', VBool False),
             (''createdAt'', VStr '''')]"
    by (auto simp: serialize_todo_def dict_get_def)
qed

section \<open>The gauge follows the collection\<close>

lemma create_todo_inv: "gauge_inv s \<Longrightarrow> gauge_inv (snd (create_todo new_id todo s))"
  by (simp add: gauge_inv_def create_todo_def create_todo_try_def Let_def
      ok_rules create_todo_except_Inl split: sum.splits)

lemma delete_todo_inv: "gauge_inv s \<Longrightarrow> gauge_inv (snd (delete_todo todo_id s))"
  by (simp add: gauge_inv_def delete_todo_def delete_todo_try_def
      ok_rules delete_todo_except_Inl split: sum.splits)

lemma update_todo_inv: "gauge_inv s \<Longrightarrow> gauge_inv (snd (update_todo todo_id todo_update s))"
  by (simp add: gauge_inv_def update_todo_def update_todo_try_def Let_def track_completion_def
      ok_rules update_todo_except_Inl split: sum.splits option.splits)

lemma get_todos_inv: "gauge_inv s \<Longrightarrow> gauge_inv (snd (get_todos s))"
  by (simp add: gauge_inv_def get_todos_def ok_rules split: sum.splits)

lemma ready_inv: "gauge_inv s \<Longrightarrow> gauge_inv (snd (ready s))"
  by (simp add: gauge_inv_def ready_def ok_rules)

lemma handle_inv: "gauge_inv s \<Longrightarrow> gauge_inv (snd (handle r s))"
  by (cases r)
     (simp_all add: case_prod_beta create_todo_inv delete_todo_inv update_todo_inv
        get_todos_inv ready_inv health_check_def live_def metrics_route_def)

lemma run_inv: "gauge_inv s \<Longrightarrow> gauge_inv (run rs s)"
  by (induction rs arbitrary: s) (simp_all add: handle_inv)

lemma startup_inv: "no_faults s0 \<Longrightarrow> startup s0 = Inr s1 \<Longrightarrow> gauge_inv s1"
  by (auto simp: startup_def ok_rules gauge_inv_def)

lemma startup_ok:
  "no_faults s0 \<Longrightarrow> startup s0 = Inr (projr (startup s0))"
  by (simp add: startup_def ping_ok)

text \<open>
  C1. In a run of the process in which every storage call succeeds, from the start of the
  process on, the gauge \<^verbatim>\<open>active_todos\<close> equals the number of documents of the
  collection whose \<^verbatim>\<open>completed\<close> field is \<^verbatim>\<open>False\<close> immediately after each
  request, whatever requests \<open>rs\<close> came before it: in particular after each
  \<^verbatim>\<open>POST /todos\<close>, \<^verbatim>\<open>PUT /todos/{id}\<close> and \<^verbatim>\<open>DELETE /todos/{id}\<close> that completes
  successfully.
\<close>

theorem gauge_equals_active_count:
  assumes "no_faults s0" and "startup s0 = Inr s1"
  shows "active_todos (metrics (snd (handle r (run rs s1)))) =
           int (count_active (todos_collection (snd (handle r (run rs s1)))))"
  using handle_inv [OF run_inv [OF startup_inv [OF assms]], of r rs]
  by (simp add: gauge_inv_def)

theorem gauge_equals_active_count_witness:
  "no_faults (process_start [] [])
   \<and> startup (process_start [] []) = Inr (projr (startup (process_start [] [])))
   \<and> status_code (fst (handle (PUT_todos zero_id no_fields)
        (run [POST_todos todo_1 zero_oid] (projr (startup (process_start [] [])))))) = 200
   \<and> active_todos (metrics (snd (handle (PUT_todos zero_id no_fields)
        (run [POST_todos todo_1 zero_oid] (projr (startup (process_start [] []))))))) = 1
   \<and> count_active (todos_collection (snd (handle (PUT_todos zero_id no_fields)
        (run [POST_todos todo_1 zero_oid] (projr (startup (process_start [] []))))))) = 1"
proof -
  have h1: "no_faults (process_start [] [])"
    by (simp add: no_faults_def process_start_def)
  have h2: "startup (process_start [] []) = Inr (projr (startup (process_start [] [])))"
    by (rule startup_ok [OF h1])
  have h3: "status_code (fst (handle (PUT_todos zero_id no_fields)
        (run [POST_todos todo_1 zero_oid] (projr (startup (process_start [] [])))))) = 200"
    by code_simp
  have h4: "count_active (todos_collection (snd (handle (PUT_todos zero_id no_fields)
        (run [POST_todos todo_1 zero_oid] (projr (startup (process_start [] []))))))) = 1"
    by code_simp
  show ?thesis
    using gauge_equals_active_count [OF h1 h2, of "PUT_todos zero_id no_fields"
        "[POST_todos todo_1 zero_oid]"] h1 h2 h3 h4
    by simp
qed

section \<open>Identifiers that match no item\<close>

text \<open>
  C2. The claim: a well-formed identifier that matches no document gets status 404 from
  \<^verbatim>\<open>PUT\<close> and \<^verbatim>\<open>DELETE\<close>, and deleting a document twice gives 200, then 404. The
  handlers raise the 404 inside the \<^verbatim>\<open>try\<close> block, where \<^verbatim>\<open>except Exception\<close>
  turns it into 400: on the empty collection the 24 zeros get 400 from both routes, and
  the second deletion of a stored document gets 400.
\<close>

theorem absent_id_answers_400:
  "ObjectId zero_id = Inr zero_oid
   \<and> status_code (fst (handle (PUT_todos zero_id mark_completed) (process_start [] []))) = 400
   \<and> status_code (fst (handle (DELETE_todos zero_id) (process_start [] []))) = 400
   \<and> status_code (fst (handle (DELETE_todos zero_id) (process_start [stored_1] []))) = 200
   \<and> todos_collection (snd (handle (DELETE_todos zero_id) (process_start [stored_1] []))) = []
   \<and> status_code (fst (handle (DELETE_todos zero_id)
        (snd (handle (DELETE_todos zero_id) (process_start [stored_1] []))))) = 400"
  by code_simp

section \<open>Creating an item\<close>

text \<open>
  C3, as amended. A \<^verbatim>\<open>POST /todos\<close> that returns has stored, under the new identifier,
  a document with the fields \<^verbatim>\<open>title\<close>, \<^verbatim>\<open>description\<close>, \<^verbatim>\<open>completed\<close> and
  \<^verbatim>\<open>_id\<close> only: no \<^verbatim>\<open>createdAt\<close> is assigned. The returned document carries
  \<^verbatim>\<open>createdAt\<close> as the empty text, the default that \<^verbatim>\<open>serialize_todo\<close> gives to a
  document without the field.
\<close>

theorem created_item_without_createdAt:
  assumes "create_todo new_id todo s = (Inr c, s')"
  shows "find (has_id new_id) (todos_collection s') =
           Some [(''title'', VStr (c_title todo)), (''description'', opt_str (c_description todo)),
                 (''completed'', VBool False), (''_id'', VOid new_id)]
       \<and> map_of [(''title'', VStr (c_title todo)), (''description'', opt_str (c_description todo)),
                 (''completed'', VBool False), (''_id'', VOid new_id)] ''createdAt'' = None
       \<and> c = Dict [(''id'', VStr (py_str (VOid new_id))), (''title'', VStr (c_title todo)),
             (''description'', opt_str (c_description todo)), (''completed'', VBool False),
             (''createdAt'', VStr '''')]"
  using create_todo_result [OF assms]
  by (simp add: find_append_absent has_id_def)

theorem created_item_without_createdAt_witness:
  "create_todo zero_oid todo_1 (process_start [] []) =
     (Inr (Dict created_1), snd (create_todo zero_oid todo_1 (process_start [] [])))
   \<and> find (has_id zero_oid)
       (todos_collection (snd (create_todo zero_oid todo_1 (process_start [] [])))) = Some stored_1
   \<and> map_of stored_1 ''createdAt'' = None
   \<and> dict_get created_1 ''createdAt'' VNone = VStr ''''"
proof -
  have r: "(case fst (create_todo zero_oid todo_1 (process_start [] [])) of
              Inr (Dict d) \<Rightarrow> d = created_1 | _ \<Rightarrow> False)"
    by code_simp
  have e: "create_todo zero_oid todo_1 (process_start [] []) =
      (Inr (Dict created_1), snd (create_todo zero_oid todo_1 (process_start [] [])))"
    using r by (auto simp: prod_eq_iff split: sum.splits content.splits)
  show ?thesis
    using created_item_without_createdAt [OF e] e
    by (simp add: todo_1_def stored_1_def created_1_def opt_str_def dict_get_def)
qed

text \<open>
  C3, as claimed (the create operation assigns a creation timestamp, and the returned
  document carries it as text), fails on the first \<^verbatim>\<open>POST /todos\<close> of a new process:
  the request succeeds with status 201, the stored document has no \<^verbatim>\<open>createdAt\<close>, and
  the returned \<^verbatim>\<open>createdAt\<close> is the empty text.
\<close>

theorem created_item_createdAt_counterexample:
  "status_code (fst (handle (POST_todos todo_1 zero_oid) (process_start [] []))) = 201
   \<and> todos_collection (snd (handle (POST_todos todo_1 zero_oid) (process_start [] []))) = [stored_1]
   \<and> map_of stored_1 ''createdAt'' = None
   \<and> (case body (fst (handle (POST_todos todo_1 zero_oid) (process_start [] []))) of
        Dict d \<Rightarrow> map_of d ''createdAt'' = Some (VStr '''')
      | _ \<Rightarrow> False)"
  by code_simp

section \<open>Counting completions\<close>

text \<open>The counter after a PUT that returns, and the item it leaves when it marked completion.\<close>

lemma update_todo_counts:
  assumes "update_todo todo_id todo_update s = (Inr c, s')"
  shows "\<exists>i existing_todo. ObjectId todo_id = Inr i
           \<and> find (has_id i) (todos_collection s) = Some existing_todo
           \<and> todos_completed (metrics s') = todos_completed (metrics s) +
               (if u_completed todo_update = Some True
                   \<and> \<not> truthy (dict_get existing_todo ''completed'' (VBool False))
                then 1 else 0)
           \<and> (u_completed todo_update = Some True \<longrightarrow>
                (\<exists>updated_todo. find (has_id i) (todos_collection s') = Some updated_todo
                   \<and> dict_get updated_todo ''completed'' (VBool False) = VBool True))"
  using assms
proof (cases rule: update_todo_returns)
  case (unchanged i existing_todo d)
  from unchanged(2) have "find (has_id i) (todos_collection s) = Some existing_todo"
    by (auto dest: find_one_value)
  with unchanged show ?thesis
    by (simp add: update_dict_empty)
next
  case (updated i existing_todo updated_todo d)
  from updated(2) have ex: "find (has_id i) (todos_collection s) = Some existing_todo"
    by (auto dest: find_one_value)
  then have "has_id i existing_todo"
    by (auto simp: find_Some_iff)
  then have keeps: "has_id i (set_fields (update_dict_of todo_update) existing_todo)"
    by (simp add: has_id_def set_fields_update_dict)
  have coll: "todos_collection s' =
      update_first (has_id i) (set_fields (update_dict_of todo_update)) (todos_collection s)"
    using updated(4,8) by (simp add: update_one_written)
  have found: "find (has_id i) (todos_collection s') =
      Some (set_fields (update_dict_of todo_update) existing_todo)"
    unfolding coll using ex keeps by (rule find_update_first)
  have marked: "u_completed todo_update = Some True \<Longrightarrow>
      dict_get (set_fields (update_dict_of todo_update) existing_todo) ''completed'' (VBool False)
        = VBool True"
    by (simp add: dict_get_def set_fields_update_dict)
  show ?thesis
    using updated(1,8) ex found marked
    by (simp add: update_dict_completed)
qed

text \<open>
  C4. A \<^verbatim>\<open>PUT /todos/{id}\<close> that returns (status 200) found the item under the
  identifier, and it increments \<^verbatim>\<open>todos_completed\<close> by one exactly when the body
  sets \<^verbatim>\<open>completed\<close> to \<^verbatim>\<open>True\<close> and the item's prior value was not true (false,
  or absent and read as \<^verbatim>\<open>False\<close>); in every other case the counter is unchanged. A
  second such \<^verbatim>\<open>PUT\<close> with \<^verbatim>\<open>completed: true\<close> on the same item that returns
  leaves the counter as the first one left it.
\<close>

theorem completion_counted_on_transition:
  assumes "update_todo todo_id todo_update s = (Inr c, s')"
  shows "(\<exists>i existing_todo. ObjectId todo_id = Inr i
           \<and> find (has_id i) (todos_collection s) = Some existing_todo
           \<and> todos_completed (metrics s') = todos_completed (metrics s) +
               (if u_completed todo_update = Some True
                   \<and> \<not> truthy (dict_get existing_todo ''completed'' (VBool False))
                then 1 else 0))
       \<and> (\<forall>c2 s2. u_completed todo_update = Some True
              \<and> update_todo todo_id todo_update s' = (Inr c2, s2)
            \<longrightarrow> todos_completed (metrics s2) = todos_completed (metrics s'))"
proof (intro conjI allI impI)
  show "\<exists>i existing_todo. ObjectId todo_id = Inr i
           \<and> find (has_id i) (todos_collection s) = Some existing_todo
           \<and> todos_completed (metrics s') = todos_completed (metrics s) +
               (if u_completed todo_update = Some True
                   \<and> \<not> truthy (dict_get existing_todo ''completed'' (VBool False))
                then 1 else 0)"
    using update_todo_counts [OF assms] by blast
next
  fix c2 s2
  assume again: "u_completed todo_update = Some True
    \<and> update_todo todo_id todo_update s' = (Inr c2, s2)"
  from update_todo_counts [OF assms] again obtain i updated_todo
    where "ObjectId todo_id = Inr i"
      and "find (has_id i) (todos_collection s') = Some updated_todo"
      and "dict_get updated_todo ''completed'' (VBool False) = VBool True"
    by blast
  moreover from again have "update_todo todo_id todo_update s' = (Inr c2, s2)"
    by simp
  from update_todo_counts [OF this] obtain j existing_todo
    where "ObjectId todo_id = Inr j"
      and "find (has_id j) (todos_collection s') = Some existing_todo"
      and "todos_completed (metrics s2) = todos_completed (metrics s') +
               (if u_completed todo_update = Some True
                   \<and> \<not> truthy (dict_get existing_todo ''completed'' (VBool False))
                then 1 else 0)"
    by blast
  ultimately show "todos_completed (metrics s2) = todos_completed (metrics s')"
    by simp
qed

theorem completion_counted_on_transition_witness:
  "update_todo zero_id mark_completed (process_start [stored_1] []) =
     (Inr (Dict completed_1), marked_once)
   \<and> update_todo zero_id mark_completed marked_once = (Inr (Dict completed_1), marked_twice)
   \<and> todos_completed (metrics (process_start [stored_1] [])) = 0
   \<and> todos_completed (metrics marked_once) = 1
   \<and> todos_completed (metrics marked_twice) = 1"
proof -
  have r1: "(case fst (update_todo zero_id mark_completed (process_start [stored_1] [])) of
               Inr (Dict d) \<Rightarrow> d = completed_1 | _ \<Rightarrow> False)"
    by code_simp
  have e1: "update_todo zero_id mark_completed (process_start [stored_1] []) =
      (Inr (Dict completed_1), marked_once)"
    using r1 by (auto simp: marked_once_def prod_eq_iff split: sum.splits content.splits)
  have r2: "(case fst (update_todo zero_id mark_completed marked_once) of
               Inr (Dict d) \<Rightarrow> d = completed_1 | _ \<Rightarrow> False)"
    by code_simp
  have e2: "update_todo zero_id mark_completed marked_once = (Inr (Dict completed_1), marked_twice)"
    using r2 by (auto simp: marked_twice_def prod_eq_iff split: sum.splits content.splits)
  have n0: "todos_completed (metrics (process_start [stored_1] [])) = 0"
    by code_simp
  have n1: "todos_completed (metrics marked_once) = 1"
    by code_simp
  show ?thesis
    using completion_counted_on_transition [OF e1] e1 e2 n0 n1
    by (simp add: mark_completed_def)
qed

text \<open>
  C5. The claim: when the storage update inside \<^verbatim>\<open>PUT /todos/{id}\<close> fails and the
  handler reports 500, \<^verbatim>\<open>todos_completed\<close> is unchanged, so that a completion is
  counted once per item. The handler increments the counter before it calls
  \<^verbatim>\<open>update_one\<close>: with one stored item that is not completed, a \<^verbatim>\<open>PUT\<close> with
  \<^verbatim>\<open>completed: true\<close> whose \<^verbatim>\<open>update_one\<close> raises gets 500, leaves the item as
  it was and has moved the counter from 0 to 1; the same \<^verbatim>\<open>PUT\<close> sent again
  succeeds and counts the same item a second time.
\<close>

theorem failed_update_is_counted:
  "status_code (fst (handle (PUT_todos zero_id mark_completed)
      (process_start [stored_1] [False, True]))) = 500
   \<and> todos_collection (snd (handle (PUT_todos zero_id mark_completed)
      (process_start [stored_1] [False, True]))) = [stored_1]
   \<and> todos_completed (metrics (process_start [stored_1] [False, True])) = 0
   \<and> todos_completed (metrics (snd (handle (PUT_todos zero_id mark_completed)
      (process_start [stored_1] [False, True])))) = 1
   \<and> status_code (fst (handle (PUT_todos zero_id mark_completed)
      (snd (handle (PUT_todos zero_id mark_completed)
        (process_start [stored_1] [False, True]))))) = 200
   \<and> todos_completed (metrics (snd (handle (PUT_todos zero_id mark_completed)
      (snd (handle (PUT_todos zero_id mark_completed)
        (process_start [stored_1] [False, True])))))) = 2"
  by code_simp

section \<open>Recounting after a mutation\<close>

lemma create_todo_recounts:
  assumes "create_todo new_id todo s = (Inr c, s')"
  shows "calls s' = calls s @
           [InsertOne (AList.update ''completed'' (VBool False) (dict_of_create todo)),
            CountDocuments, FindOne new_id]"
    and "db_errors (metrics s') ''count'' = db_errors (metrics s) ''count'' \<Longrightarrow>
           active_todos (metrics s') = int (count_active (todos_collection s'))"
proof -
  let ?d = "AList.update ''completed'' (VBool False) (dict_of_create todo)"
  let ?s1 = "inc_todos_created (snd (insert_one new_id ?d s))"
  from assms have s': "s' = snd (find_one new_id (update_active_todos_count ?s1))"
    by (rule create_todo_returns)
  show "calls s' = calls s @ [InsertOne ?d, CountDocuments, FindOne new_id]"
    by (simp add: s')
  assume "db_errors (metrics s') ''count'' = db_errors (metrics s) ''count''"
  then have "db_errors (metrics (update_active_todos_count ?s1)) ''count'' =
      db_errors (metrics ?s1) ''count''"
    by (simp add: s')
  from count_publishes [OF this]
  show "active_todos (metrics s') = int (count_active (todos_collection s'))"
    by (simp add: s')
qed

lemma delete_todo_recounts:
  assumes "delete_todo todo_id s = (Inr c, s')"
  shows "\<exists>i. ObjectId todo_id = Inr i \<and> calls s' = calls s @ [DeleteOne i, CountDocuments]"
    and "db_errors (metrics s') ''count'' = db_errors (metrics s) ''count'' \<Longrightarrow>
           active_todos (metrics s') = int (count_active (todos_collection s'))"
proof -
  from assms obtain i where i: "ObjectId todo_id = Inr i"
    and s': "s' = update_active_todos_count (inc_todos_deleted (snd (delete_one i s)))"
    by (rule delete_todo_returns)
  show "\<exists>i. ObjectId todo_id = Inr i \<and> calls s' = calls s @ [DeleteOne i, CountDocuments]"
    using i by (simp add: s')
  assume "db_errors (metrics s') ''count'' = db_errors (metrics s) ''count''"
  then have "db_errors (metrics (update_active_todos_count (inc_todos_deleted (snd (delete_one i s)))))
      ''count'' = db_errors (metrics (inc_todos_deleted (snd (delete_one i s)))) ''count''"
    by (simp add: s')
  from count_publishes [OF this]
  show "active_todos (metrics s') = int (count_active (todos_collection s'))"
    by (simp add: s')
qed

lemma update_todo_recounts:
  assumes "update_todo todo_id todo_update s = (Inr c, s')"
    and "update_dict_of todo_update \<noteq> []"
  shows "(\<exists>i. ObjectId todo_id = Inr i \<and> calls s' = calls s @
           [FindOne i, UpdateOne i (update_dict_of todo_update), FindOne i, CountDocuments])
       \<and> (db_errors (metrics s') ''count'' = db_errors (metrics s) ''count'' \<longrightarrow>
           active_todos (metrics s') = int (count_active (todos_collection s')))"
  using assms(1)
proof (cases rule: update_todo_returns)
  case (unchanged i existing_todo d)
  with assms(2) show ?thesis by simp
next
  case (updated i existing_todo updated_todo d)
  let ?s4 = "snd (find_one i (snd (update_one i (update_dict_of todo_update)
             (track_completion (update_dict_of todo_update) existing_todo (snd (find_one i s))))))"
  have s': "s' = update_active_todos_count ?s4"
    by (rule updated(8))
  have "db_errors (metrics s') ''count'' = db_errors (metrics s) ''count'' \<longrightarrow>
      active_todos (metrics s') = int (count_active (todos_collection s'))"
  proof
    assume "db_errors (metrics s') ''count'' = db_errors (metrics s) ''count''"
    then have "db_errors (metrics (update_active_todos_count ?s4)) ''count'' =
        db_errors (metrics ?s4) ''count''"
      by (simp add: s')
    from count_publishes [OF this]
    show "active_todos (metrics s') = int (count_active (todos_collection s'))"
      by (simp add: s')
  qed
  moreover have "calls s' = calls s @
           [FindOne i, UpdateOne i (update_dict_of todo_update), FindOne i, CountDocuments]"
    by (simp add: s')
  ultimately show ?thesis
    using updated(1) by simp
qed

lemma update_todo_no_fields:
  assumes "update_todo todo_id todo_update s = (Inr c, s')"
    and "update_dict_of todo_update = []"
  shows "(\<exists>i. ObjectId todo_id = Inr i \<and> calls s' = calls s @ [FindOne i])
       \<and> metrics s' = metrics s \<and> todos_collection s' = todos_collection s"
  using assms(1)
proof (cases rule: update_todo_returns)
  case (unchanged i existing_todo d)
  then show ?thesis by simp
next
  case (updated i existing_todo updated_todo d)
  with assms(2) show ?thesis by simp
qed

text \<open>
  C6, as amended. A \<^verbatim>\<open>POST /todos\<close>, a \<^verbatim>\<open>DELETE /todos/{id}\<close> and a
  \<^verbatim>\<open>PUT /todos/{id}\<close> whose body supplies at least one field, when they return, have
  issued the count query after their document operation (the calls of the request are
  listed), and the gauge holds the count of the collection unless that query raised,
  which the counter \<^verbatim>\<open>db_errors\<close> labelled \<^verbatim>\<open>count\<close> then records. A
  \<^verbatim>\<open>PUT /todos/{id}\<close> whose body supplies no field returns after its one
  \<^verbatim>\<open>find_one\<close>: it issues no count query and leaves every metric, the gauge included,
  and the collection as they were.
\<close>

theorem mutations_recount:
  "(create_todo new_id todo s = (Inr c, s') \<longrightarrow>
      calls s' = calls s @
        [InsertOne (AList.update ''completed'' (VBool False) (dict_of_create todo)),
         CountDocuments, FindOne new_id]
      \<and> (db_errors (metrics s') ''count'' = db_errors (metrics s) ''count'' \<longrightarrow>
           active_todos (metrics s') = int (count_active (todos_collection s'))))
   \<and> (delete_todo todo_id s = (Inr c, s') \<longrightarrow>
      (\<exists>i. ObjectId todo_id = Inr i \<and> calls s' = calls s @ [DeleteOne i, CountDocuments])
      \<and> (db_errors (metrics s') ''count'' = db_errors (metrics s) ''count'' \<longrightarrow>
           active_todos (metrics s') = int (count_active (todos_collection s'))))
   \<and> (update_todo todo_id todo_update s = (Inr c, s') \<and> update_dict_of todo_update \<noteq> [] \<longrightarrow>
      (\<exists>i. ObjectId todo_id = Inr i \<and> calls s' = calls s @
         [FindOne i, UpdateOne i (update_dict_of todo_update), FindOne i, CountDocuments])
      \<and> (db_errors (metrics s') ''count'' = db_errors (metrics s) ''count'' \<longrightarrow>
           active_todos (metrics s') = int (count_active (todos_collection s'))))
   \<and> (update_todo todo_id todo_update s = (Inr c, s') \<and> update_dict_of todo_update = [] \<longrightarrow>
      (\<exists>i. ObjectId todo_id = Inr i \<and> calls s' = calls s @ [FindOne i])
      \<and> metrics s' = metrics s \<and> todos_collection s' = todos_collection s)"
  using create_todo_recounts [of new_id todo s c s'] delete_todo_recounts [of todo_id s c s']
    update_todo_recounts [of todo_id todo_update s c s']
    update_todo_no_fields [of todo_id todo_update s c s']
  by blast

theorem mutations_recount_witness:
  "create_todo zero_oid todo_1 (process_start [] []) =
     (Inr (Dict created_1), snd (create_todo zero_oid todo_1 (process_start [] [])))
   \<and> calls (snd (create_todo zero_oid todo_1 (process_start [] []))) =
       [InsertOne [(''title'', VStr ''Todo 1''), (''description'', VNone),
          (''completed'', VBool False)], CountDocuments, FindOne zero_oid]
   \<and> active_todos (metrics (snd (create_todo zero_oid todo_1 (process_start [] [])))) = 1
   \<and> delete_todo zero_id (process_start [stored_1] []) =
       (Inr (Dict [(''message'', VStr ''Todo deleted'')]),
        snd (delete_todo zero_id (process_start [stored_1] [])))
   \<and> calls (snd (delete_todo zero_id (process_start [stored_1] []))) =
       [DeleteOne zero_oid, CountDocuments]
   \<and> active_todos (metrics (snd (delete_todo zero_id (process_start [stored_1] [])))) = 0
   \<and> update_todo zero_id mark_completed (process_start [stored_1] []) =
       (Inr (Dict completed_1), marked_once)
   \<and> update_dict_of mark_completed = [(''completed'', VBool True)]
   \<and> calls marked_once =
       [FindOne zero_oid, UpdateOne zero_oid [(''completed'', VBool True)], FindOne zero_oid,
        CountDocuments]
   \<and> active_todos (metrics marked_once) = 0
   \<and> update_todo zero_id no_fields (process_start [stored_1] []) =
       (Inr (Dict created_1), snd (update_todo zero_id no_fields (process_start [stored_1] [])))
   \<and> update_dict_of no_fields = []
   \<and> calls (snd (update_todo zero_id no_fields (process_start [stored_1] []))) = [FindOne zero_oid]
   \<and> metrics (snd (update_todo zero_id no_fields (process_start [stored_1] []))) =
       metrics (process_start [stored_1] [])"
proof -
  have start: "calls (process_start ds fs) = []" for ds fs
    by (simp add: process_start_def)
  have oid: "ObjectId zero_id = Inr zero_oid"
    by code_simp
  have sent: "AList.update ''completed'' (VBool False) (dict_of_create todo_1) =
      [(''title'', VStr ''Todo 1''), (''description'', VNone), (''completed'', VBool False)]"
    by (simp add: dict_of_create_def todo_1_def opt_str_def)
  have ud: "update_dict_of mark_completed = [(''completed'', VBool True)]"
    "update_dict_of no_fields = []"
    by (simp_all add: update_dict_of_def dict_of_update_def mark_completed_def no_fields_def
        opt_str_def opt_bool_def)
  have rc: "(case fst (create_todo zero_oid todo_1 (process_start [] [])) of
               Inr (Dict d) \<Rightarrow> d = created_1 | _ \<Rightarrow> False)"
    by code_simp
  have ec: "create_todo zero_oid todo_1 (process_start [] []) =
      (Inr (Dict created_1), snd (create_todo zero_oid todo_1 (process_start [] [])))"
    using rc by (auto simp: prod_eq_iff split: sum.splits content.splits)
  have nc: "db_errors (metrics (snd (create_todo zero_oid todo_1 (process_start [] [])))) ''count'' =
      db_errors (metrics (process_start [] [])) ''count''"
    "count_active (todos_collection (snd (create_todo zero_oid todo_1 (process_start [] [])))) = 1"
    by code_simp+
  have rd: "(case fst (delete_todo zero_id (process_start [stored_1] [])) of
               Inr (Dict d) \<Rightarrow> d = [(''message'', VStr ''Todo deleted'')] | _ \<Rightarrow> False)"
    by code_simp
  have ed: "delete_todo zero_id (process_start [stored_1] []) =
      (Inr (Dict [(''message'', VStr ''Todo deleted'')]),
       snd (delete_todo zero_id (process_start [stored_1] [])))"
    using rd by (auto simp: prod_eq_iff split: sum.splits content.splits)
  have nd: "db_errors (metrics (snd (delete_todo zero_id (process_start [stored_1] [])))) ''count'' =
      db_errors (metrics (process_start [stored_1] [])) ''count''"
    "count_active (todos_collection (snd (delete_todo zero_id (process_start [stored_1] [])))) = 0"
    by code_simp+
  have ru: "(case fst (update_todo zero_id mark_completed (process_start [stored_1] [])) of
               Inr (Dict d) \<Rightarrow> d = completed_1 | _ \<Rightarrow> False)"
    by code_simp
  have eu: "update_todo zero_id mark_completed (process_start [stored_1] []) =
      (Inr (Dict completed_1), marked_once)"
    using ru by (auto simp: marked_once_def prod_eq_iff split: sum.splits content.splits)
  have nu: "db_errors (metrics marked_once) ''count'' =
      db_errors (metrics (process_start [stored_1] [])) ''count''"
    "count_active (todos_collection marked_once) = 0"
    by code_simp+
  have rn: "(case fst (update_todo zero_id no_fields (process_start [stored_1] [])) of
               Inr (Dict d) \<Rightarrow> d = created_1 | _ \<Rightarrow> False)"
    by code_simp
  have en: "update_todo zero_id no_fields (process_start [stored_1] []) =
      (Inr (Dict created_1), snd (update_todo zero_id no_fields (process_start [stored_1] [])))"
    using rn by (auto simp: prod_eq_iff split: sum.splits content.splits)
  show ?thesis
    using
      mutations_recount [where s = "process_start [] []" and new_id = zero_oid and todo = todo_1
        and c = "Dict created_1"
        and s' = "snd (create_todo zero_oid todo_1 (process_start [] []))"
        and todo_id = zero_id and todo_update = no_fields]
      mutations_recount [where s = "process_start [stored_1] []" and new_id = zero_oid
        and todo = todo_1 and c = "Dict [(''message'', VStr ''Todo deleted'')]"
        and s' = "snd (delete_todo zero_id (process_start [stored_1] []))"
        and todo_id = zero_id and todo_update = no_fields]
      mutations_recount [where s = "process_start [stored_1] []" and new_id = zero_oid
        and todo = todo_1 and c = "Dict completed_1" and s' = marked_once
        and todo_id = zero_id and todo_update = mark_completed]
      mutations_recount [where s = "process_start [stored_1] []" and new_id = zero_oid
        and todo = todo_1 and c = "Dict created_1"
        and s' = "snd (update_todo zero_id no_fields (process_start [stored_1] []))"
        and todo_id = zero_id and todo_update = no_fields]
      ec ed eu en nc nd nu
    by (simp add: start oid sent ud)
qed

text \<open>
  C6, as claimed for every successful mutation, fails in two ways. A \<^verbatim>\<open>PUT\<close> whose
  body supplies no field: in a process whose start-up count failed, the gauge is 0 while
  one item is active; the \<^verbatim>\<open>PUT\<close> returns 200 with the unchanged item after a single
  \<^verbatim>\<open>find_one\<close>, and the gauge is still 0. And a \<^verbatim>\<open>POST /todos\<close> whose count
  query raises: it returns 201 and has published nothing, the gauge is 0 beside one
  active item.
\<close>

theorem recount_counterexample:
  "status_code (fst (handle (PUT_todos zero_id no_fields) stale_start)) = 200
   \<and> (case body (fst (handle (PUT_todos zero_id no_fields) stale_start)) of
        Dict d \<Rightarrow> d = created_1 | _ \<Rightarrow> False)
   \<and> calls (snd (handle (PUT_todos zero_id no_fields) stale_start)) =
       calls stale_start @ [FindOne zero_oid]
   \<and> active_todos (metrics (snd (handle (PUT_todos zero_id no_fields) stale_start))) = 0
   \<and> count_active (todos_collection (snd (handle (PUT_todos zero_id no_fields) stale_start))) = 1
   \<and> status_code (fst (handle (POST_todos todo_1 zero_oid) (process_start [] [False, True]))) = 201
   \<and> active_todos (metrics (snd (handle (POST_todos todo_1 zero_oid)
        (process_start [] [False, True])))) = 0
   \<and> count_active (todos_collection (snd (handle (POST_todos todo_1 zero_oid)
        (process_start [] [False, True])))) = 1"
  by code_simp

section \<open>The request-duration histogram\<close>

lemma observations_create:
  "http_request_duration (metrics (snd (create_todo new_id todo s))) = http_request_duration (metrics s)"
  by (simp add: create_todo_def create_todo_try_def Let_def case_prod_beta create_todo_except_Inl
      split: sum.splits)

lemma observations_delete:
  "http_request_duration (metrics (snd (delete_todo todo_id s))) = http_request_duration (metrics s)"
  by (simp add: delete_todo_def delete_todo_try_def Let_def case_prod_beta delete_todo_except_Inl
      split: sum.splits)

lemma observations_update:
  "http_request_duration (metrics (snd (update_todo todo_id todo_update s))) = http_request_duration (metrics s)"
  by (cases todo_id todo_update s rule: update_todo_try_cases)
     (simp_all add: update_todo_def update_todo_except_Inl split: sum.splits)

lemma observations_get_todos:
  "http_request_duration (metrics (snd (get_todos s))) = http_request_duration (metrics s)"
  by (simp add: get_todos_def case_prod_beta split: sum.splits)

lemma observations_ready:
  "http_request_duration (metrics (snd (ready s))) = http_request_duration (metrics s)"
  by (simp add: ready_def case_prod_beta split: sum.splits)

lemma observations_handle:
  "http_request_duration (metrics (snd (handle r s))) = http_request_duration (metrics s)"
  by (cases r)
     (simp_all add: case_prod_beta observations_create observations_update observations_delete
        observations_get_todos observations_ready health_check_def live_def metrics_route_def)

lemma observations_run:
  "http_request_duration (metrics (run rs s)) = http_request_duration (metrics s)"
  by (induction rs arbitrary: s) (simp_all add: observations_handle)

text \<open>
  C7. The claim: after at least one handled request, the body of \<^verbatim>\<open>GET /metrics\<close>
  contains the histogram \<^verbatim>\<open>http_request_duration_seconds\<close> and reflects at least one
  observation of it. The routes are registered without \<^verbatim>\<open>track_request_time\<close>, the
  only function that observes the histogram. So no sequence of requests \<open>rs\<close>, under
  any storage outcomes, adds an observation; \<^verbatim>\<open>GET /metrics\<close> then answers 200 with
  the rendering of that registry; and in a new process that has handled
  \<^verbatim>\<open>GET /health\<close> the histogram has no observation at all.
\<close>

theorem histogram_never_observed:
  "http_request_duration (metrics (run rs s)) = http_request_duration (metrics s)
   \<and> fst (handle GET_metrics (run rs s)) =
       \<lparr>status_code = 200, body = Exposition (metrics (run rs s))\<rparr>
   \<and> http_request_duration
       (metrics (run [GET_health] (projr (startup (process_start [] []))))) = []"
proof -
  have "http_request_duration (metrics (projr (startup (process_start [] [])))) = []"
    by (simp add: startup_def ping_def issue_eq process_start_def fresh_registry_def
        set_mongo_connections_def)
  then show ?thesis
    by (simp add: observations_run metrics_route_def del: run.simps)
qed

section \<open>Malformed identifiers\<close>




section \<open>The completed flag of a created item\<close>

text \<open>
  C9, as amended. For every \<^verbatim>\<open>POST /todos\<close> with a valid body whose storage calls
  succeed (no call fails, and the generated identifier is new to the collection), the
  handler responds 201, and the \<^verbatim>\<open>completed\<close> field is \<^verbatim>\<open>False\<close> in the returned
  item and in the stored document, whatever \<^verbatim>\<open>completed\<close> the body supplies.
\<close>

theorem create_forces_completed_false:
  assumes "no_faults s" and "\<not> list_ex (has_id new_id) (todos_collection s)"
  shows "fst (handle (POST_todos todo new_id) s) =
           \<lparr>status_code = 201,
            body = Dict [(''id'', VStr (py_str (VOid new_id))), (''title'', VStr (c_title todo)),
              (''description'', opt_str (c_description todo)), (''completed'', VBool False),
              (''createdAt'', VStr '''')]\<rparr>
       \<and> todos_collection (snd (handle (POST_todos todo new_id) s)) = todos_collection s @
           [[(''title'', VStr (c_title todo)), (''description'', opt_str (c_description todo)),
             (''completed'', VBool False), (''_id'', VOid new_id)]]"
  using assms
  by (simp add: case_prod_beta create_todo_def create_todo_try_def Let_def ok_rules
      stored_document find_append_absent has_id_def serialize_todo_def dict_get_def)

theorem create_forces_completed_false_witness:
  "no_faults (process_start [] []) \<and> c_completed todo_1
   \<and> \<not> list_ex (has_id zero_oid) (todos_collection (process_start [] []))
   \<and> fst (handle (POST_todos todo_1 zero_oid) (process_start [] [])) =
       \<lparr>status_code = 201, body = Dict created_1\<rparr>
   \<and> todos_collection (snd (handle (POST_todos todo_1 zero_oid) (process_start [] []))) = [stored_1]"
proof -
  have h1: "no_faults (process_start [] [])"
    by (simp add: no_faults_def process_start_def)
  have h2: "\<not> list_ex (has_id zero_oid) (todos_collection (process_start [] []))"
    by (simp add: process_start_def)
  have ids: "map hex_char zero_oid = zero_id"
    by code_simp
  have coll: "todos_collection (process_start [] []) = []"
    by (simp add: process_start_def)
  have flag: "c_completed todo_1"
    by (simp add: todo_1_def)
  show ?thesis
    using create_forces_completed_false [OF h1 h2, of todo_1] h1 h2 flag
    by (simp add: ids coll created_1_def stored_1_def opt_str_def todo_1_def)
qed

text \<open>
  C9, as claimed for every request with a valid body, fails when the insert raises: the
  handler's \<^verbatim>\<open>except PyMongoError\<close> clause answers 500 and nothing is created.
\<close>

theorem create_storage_failure_counterexample:
  "c_completed todo_1
   \<and> status_code (fst (handle (POST_todos todo_1 zero_oid) (process_start [] [True]))) = 500
   \<and> todos_collection (snd (handle (POST_todos todo_1 zero_oid) (process_start [] [True]))) = []"
  by code_simp

section \<open>A failing count query\<close>

lemma create_count_failure:
  assumes "faults s = False # True # fs" and "list_all (\<lambda>f. \<not> f) fs"
    and "\<not> list_ex (has_id new_id) (todos_collection s)"
  shows "status_code (fst (handle (POST_todos todo new_id) s)) = 201
       \<and> db_errors (metrics (snd (handle (POST_todos todo new_id) s))) ''count'' =
           db_errors (metrics s) ''count'' + 1
       \<and> active_todos (metrics (snd (handle (POST_todos todo new_id) s))) =
           active_todos (metrics s)"
  using assms
  by (cases fs)
     (simp_all add: case_prod_beta create_todo_def create_todo_try_def Let_def storage_defs
        issue_eq update_active_todos_count_def metric_defs list_ex_iff
        stored_document find_append_absent has_id_def serialize_todo_def)

lemma delete_count_failure:
  assumes "faults s = False # True # fs" and "ObjectId todo_id = Inr i"
    and "list_ex (has_id i) (todos_collection s)"
  shows "status_code (fst (handle (DELETE_todos todo_id) s)) = 200
       \<and> db_errors (metrics (snd (handle (DELETE_todos todo_id) s))) ''count'' =
           db_errors (metrics s) ''count'' + 1
       \<and> active_todos (metrics (snd (handle (DELETE_todos todo_id) s))) =
           active_todos (metrics s)"
  using assms
  by (simp add: case_prod_beta delete_todo_def delete_todo_try_def storage_defs
        issue_eq update_active_todos_count_def metric_defs list_ex_iff)

lemma update_count_failure:
  assumes "faults s = False # False # False # True # fs" and "ObjectId todo_id = Inr i"
    and "find (has_id i) (todos_collection s) = Some existing_todo"
    and "update_dict_of todo_update \<noteq> []"
    and "map_of existing_todo ''title'' \<noteq> None \<or> u_title todo_update \<noteq> None"
  shows "status_code (fst (handle (PUT_todos todo_id todo_update) s)) = 200
       \<and> db_errors (metrics (snd (handle (PUT_todos todo_id todo_update) s))) ''count'' =
           db_errors (metrics s) ''count'' + 1
       \<and> active_todos (metrics (snd (handle (PUT_todos todo_id todo_update) s))) =
           active_todos (metrics s)"
proof -
  let ?ud = "update_dict_of todo_update"
  from assms(3) have "has_id i existing_todo"
    by (auto simp: find_Some_iff)
  then have id: "map_of (set_fields ?ud existing_todo) ''_id'' = Some (VOid i)"
    by (simp add: has_id_def set_fields_update_dict)
  then have keeps: "has_id i (set_fields ?ud existing_todo)"
    by (simp add: has_id_def)
  have found: "find (has_id i) (update_first (has_id i) (set_fields ?ud) (todos_collection s)) =
      Some (set_fields ?ud existing_todo)"
    using assms(3) keeps by (rule find_update_first)
  from assms(5) have "\<exists>t. map_of (set_fields ?ud existing_todo) ''title'' = Some t"
    by (cases "u_title todo_update") (auto simp: set_fields_update_dict)
  then obtain t where "map_of (set_fields ?ud existing_todo) ''title'' = Some t" ..
  with id obtain x where ser: "serialize_todo (Some (set_fields ?ud existing_todo)) = Inr x"
    using serialize_todo_ok by blast
  show ?thesis
    using assms(1,2,3,4) found ser
    by (simp add: case_prod_beta update_todo_def update_todo_try_def Let_def storage_defs
        issue_eq update_active_todos_count_def metric_defs track_completion_def)
qed

text \<open>
  C10. When the count query is the only storage call of a mutation that raises (the
  calls before it succeed, and so does the re-read that \<^verbatim>\<open>create_todo\<close> issues after
  it), the handler still returns its success response: 201 for \<^verbatim>\<open>POST /todos\<close> with
  a new identifier, 200 for \<^verbatim>\<open>PUT\<close> with at least one field on a stored item that has
  or gets a title, 200 for \<^verbatim>\<open>DELETE\<close> of a stored item. The counter \<^verbatim>\<open>db_errors\<close>
  labelled \<^verbatim>\<open>count\<close> is incremented by one and the gauge \<^verbatim>\<open>active_todos\<close> keeps
  its previous value.
\<close>

theorem count_failure_tolerated:
  "(faults s = False # True # fs \<and> list_all (\<lambda>f. \<not> f) fs
      \<and> \<not> list_ex (has_id new_id) (todos_collection s) \<longrightarrow>
      status_code (fst (handle (POST_todos todo new_id) s)) = 201
      \<and> db_errors (metrics (snd (handle (POST_todos todo new_id) s))) ''count'' =
          db_errors (metrics s) ''count'' + 1
      \<and> active_todos (metrics (snd (handle (POST_todos todo new_id) s))) =
          active_todos (metrics s))
   \<and> (faults s = False # False # False # True # fs \<and> ObjectId todo_id = Inr i
      \<and> find (has_id i) (todos_collection s) = Some existing_todo
      \<and> update_dict_of todo_update \<noteq> []
      \<and> (map_of existing_todo ''title'' \<noteq> None \<or> u_title todo_update \<noteq> None) \<longrightarrow>
      status_code (fst (handle (PUT_todos todo_id todo_update) s)) = 200
      \<and> db_errors (metrics (snd (handle (PUT_todos todo_id todo_update) s))) ''count'' =
          db_errors (metrics s) ''count'' + 1
      \<and> active_todos (metrics (snd (handle (PUT_todos todo_id todo_update) s))) =
          active_todos (metrics s))
   \<and> (faults s = False # True # fs \<and> ObjectId todo_id = Inr i
      \<and> list_ex (has_id i) (todos_collection s) \<longrightarrow>
      status_code (fst (handle (DELETE_todos todo_id) s)) = 200
      \<and> db_errors (metrics (snd (handle (DELETE_todos todo_id) s))) ''count'' =
          db_errors (metrics s) ''count'' + 1
      \<and> active_todos (metrics (snd (handle (DELETE_todos todo_id) s))) =
          active_todos (metrics s))"
  using create_count_failure [of s fs new_id todo]
    update_count_failure [of s fs todo_id i existing_todo todo_update]
    delete_count_failure [of s fs todo_id i]
  by blast

theorem count_failure_tolerated_witness:
  "faults (process_start [] [False, True]) = [False, True]
   \<and> \<not> list_ex (has_id zero_oid) (todos_collection (process_start [] [False, True]))
   \<and> status_code (fst (handle (POST_todos todo_1 zero_oid) (process_start [] [False, True]))) = 201
   \<and> db_errors (metrics (snd (handle (POST_todos todo_1 zero_oid)
        (process_start [] [False, True])))) ''count'' = 1
   \<and> active_todos (metrics (snd (handle (POST_todos todo_1 zero_oid)
        (process_start [] [False, True])))) = 0
   \<and> faults (process_start [stored_1] [False, False, False, True]) = [False, False, False, True]
   \<and> ObjectId zero_id = Inr zero_oid
   \<and> find (has_id zero_oid) (todos_collection (process_start [stored_1] [False, False, False, True]))
        = Some stored_1
   \<and> update_dict_of mark_completed = [(''completed'', VBool True)]
   \<and> map_of stored_1 ''title'' = Some (VStr ''Todo 1'')
   \<and> status_code (fst (handle (PUT_todos zero_id mark_completed)
        (process_start [stored_1] [False, False, False, True]))) = 200
   \<and> db_errors (metrics (snd (handle (PUT_todos zero_id mark_completed)
        (process_start [stored_1] [False, False, False, True])))) ''count'' = 1
   \<and> active_todos (metrics (snd (handle (PUT_todos zero_id mark_completed)
        (process_start [stored_1] [False, False, False, True])))) = 0
   \<and> faults (process_start [stored_1] [False, True]) = [False, True]
   \<and> list_ex (has_id zero_oid) (todos_collection (process_start [stored_1] [False, True]))
   \<and> status_code (fst (handle (DELETE_todos zero_id) (process_start [stored_1] [False, True]))) = 200
   \<and> db_errors (metrics (snd (handle (DELETE_todos zero_id)
        (process_start [stored_1] [False, True])))) ''count'' = 1
   \<and> active_todos (metrics (snd (handle (DELETE_todos zero_id)
        (process_start [stored_1] [False, True])))) = 0"
proof -
  have start: "faults (process_start ds fs) = fs" "todos_collection (process_start ds fs) = ds"
    "db_errors (metrics (process_start ds fs)) ''count'' = 0"
    "active_todos (metrics (process_start ds fs)) = 0" for ds fs
    by (simp_all add: process_start_def fresh_registry_def)
  have oid: "ObjectId zero_id = Inr zero_oid"
    by code_simp
  have item: "find (has_id zero_oid) [stored_1] = Some stored_1"
    "list_ex (has_id zero_oid) [stored_1]" "map_of stored_1 ''title'' = Some (VStr ''Todo 1'')"
    "has_id zero_oid stored_1"
    by (simp_all add: has_id_def stored_1_def)
  have ud: "update_dict_of mark_completed = [(''completed'', VBool True)]"
    by (simp add: update_dict_of_def dict_of_update_def mark_completed_def opt_str_def opt_bool_def)
  show ?thesis
    using count_failure_tolerated [where s = "process_start [] [False, True]" and fs = "[]"
        and new_id = zero_oid and todo = todo_1 and todo_id = zero_id and i = zero_oid
        and existing_todo = stored_1 and todo_update = mark_completed]
      count_failure_tolerated [where s = "process_start [stored_1] [False, False, False, True]"
        and fs = "[]" and new_id = zero_oid and todo = todo_1 and todo_id = zero_id
        and i = zero_oid and existing_todo = stored_1 and todo_update = mark_completed]
      count_failure_tolerated [where s = "process_start [stored_1] [False, True]" and fs = "[]"
        and new_id = zero_oid and todo = todo_1 and todo_id = zero_id and i = zero_oid
        and existing_todo = stored_1 and todo_update = mark_completed]
    by (simp add: start oid item ud)
qed

end
